theory Spec2Isabelle
  imports Complex_Main
begin

text \<open>
  A model of the handlers of the scouting platform's API: accounts (\<open>register\<close>,
  \<open>login\<close>), likes and comments, tryout invitations, media upload and deletion, and the
  player rating. A handler is a function from the store (and, where it calls them, the
  answers of its collaborators) and the request to the HTTP answer and the new store.
  The definitions keep the names, the order of the checks and the messages of the
  source; the properties follow the definitions.
\<close>

section \<open>JavaScript values and HTTP responses\<close>

text \<open>
  A handler of the API answers with \<open>res.status(n).json(obj)\<close>. The answer is modelled as
  the status code together with the fields of the JSON object, in the order the source
  writes them. \<open>res.json(obj)\<close> without a status is status 200.
\<close>

datatype jval = JNull | JBool bool | JNum int | JStr string | JObj "(string \<times> jval) list"

record response =
  status :: nat
  body :: "(string \<times> jval) list"

definition json :: "nat \<Rightarrow> (string \<times> jval) list \<Rightarrow> response" where
  "json st b = \<lparr>status = st, body = b\<rparr>"

definition msg :: "nat \<Rightarrow> string \<Rightarrow> response" where
  "msg st m = json st [(''message'', JStr m)]"

text \<open>
  A field of a request body is absent (\<open>undefined\<close>) or present. \<open>!x\<close> holds of an absent
  field, of the empty string and of the number 0.
\<close>

definition truthy :: "'a list option \<Rightarrow> bool" where
  "truthy s = (case s of None \<Rightarrow> False | Some v \<Rightarrow> v \<noteq> [])"

definition truthy_id :: "nat option \<Rightarrow> bool" where
  "truthy_id n = (case n of None \<Rightarrow> False | Some v \<Rightarrow> v \<noteq> 0)"

definition str_of :: "'a list option \<Rightarrow> 'a list" where
  "str_of s = (case s of None \<Rightarrow> [] | Some v \<Rightarrow> v)"

definition id_of :: "nat option \<Rightarrow> nat" where
  "id_of n = (case n of None \<Rightarrow> 0 | Some v \<Rightarrow> v)"

text \<open>
  A route parameter (\<open>req.params.id\<close>) is a string, and never the empty one: where the
  source reads it as an identifier, \<open>Some n\<close> stands for the string that denotes \<open>n\<close>
  (also \<open>"0"\<close>, which is truthy) and \<open>None\<close> for a parameter that is missing.
\<close>

definition param_given :: "nat option \<Rightarrow> bool" where
  "param_given n = (n \<noteq> None)"

text \<open>\<open>s.startsWith(p)\<close> and \<open>s.includes(p)\<close> of JavaScript strings.\<close>

fun startsWith :: "string \<Rightarrow> string \<Rightarrow> bool" where
  "startsWith s [] = True"
| "startsWith [] (p # ps) = False"
| "startsWith (c # cs) (p # ps) = (c = p \<and> startsWith cs ps)"

fun includes_str :: "string \<Rightarrow> string \<Rightarrow> bool" where
  "includes_str [] p = (p = [])"
| "includes_str (c # cs) p = (startsWith (c # cs) p \<or> includes_str cs p)"

section \<open>Numbers\<close>

text \<open>
  A JavaScript number is an IEEE 754 double: a finite value, which is a rational number,
  one of the two infinities, or NaN. The two zeros are not told apart; they differ only
  as divisors, and no handler below divides by zero. An arithmetic operation yields the
  exact result rounded to the nearest double, ties to the even significand (\<open>fl\<close>, with
  significands of 53 bits and the subnormal numbers at the exponent \<open>-1074\<close>), and an
  infinity when the rounded result is beyond the largest double (\<open>rnd\<close>).
\<close>

datatype num = Fin rat | PInf | NInf | NaN

fun ilog2 :: "nat \<Rightarrow> nat" where
  "ilog2 n = (if n < 2 then 0 else Suc (ilog2 (n div 2)))"

declare ilog2.simps [simp del]

text \<open>\<open>flog2 x\<close> is the integer \<open>k\<close> with \<open>2^k \<le> x < 2^(k+1)\<close>, for a positive \<open>x\<close>.\<close>

definition flog2 :: "rat \<Rightarrow> int" where
  "flog2 x = (if 1 \<le> x then int (ilog2 (nat \<lfloor>x\<rfloor>))
              else - int (ilog2 (nat (\<lceil>1 / x\<rceil> - 1))) - 1)"

definition pow2 :: "int \<Rightarrow> rat" where
  "pow2 k = (if 0 \<le> k then 2 ^ nat k else 1 / 2 ^ nat (- k))"

definition round_even :: "rat \<Rightarrow> int" where
  "round_even x =
     (let f = \<lfloor>x\<rfloor>; r = x - of_int f
      in if r < 1 / 2 then f else if 1 / 2 < r then f + 1 else if even f then f else f + 1)"

definition fl :: "rat \<Rightarrow> rat" where
  "fl x =
     (if x = 0 then 0
      else let a = \<bar>x\<bar>; e = max (flog2 a - 52) (- 1074); m = round_even (a / pow2 e)
           in sgn x * of_int m * pow2 e)"

definition max_double :: rat where
  "max_double = (2 ^ 53 - 1) * 2 ^ 971"

definition rnd :: "rat \<Rightarrow> num" where
  "rnd x = (let r = fl x
            in if max_double < r then PInf else if r < - max_double then NInf else Fin r)"

text \<open>The sign of a number that is not NaN, for the products and quotients of infinities.\<close>

fun sign_of :: "num \<Rightarrow> int" where
  "sign_of (Fin r) = (if 0 < r then 1 else if r < 0 then - 1 else 0)"
| "sign_of PInf = 1"
| "sign_of NInf = - 1"
| "sign_of NaN = 0"

definition inf_of_sign :: "int \<Rightarrow> num" where
  "inf_of_sign s = (if s = 0 then NaN else if 0 < s then PInf else NInf)"

fun js_add :: "num \<Rightarrow> num \<Rightarrow> num" where
  "js_add (Fin a) (Fin b) = rnd (a + b)"
| "js_add NaN y = NaN"
| "js_add x NaN = NaN"
| "js_add PInf NInf = NaN"
| "js_add NInf PInf = NaN"
| "js_add PInf y = PInf"
| "js_add NInf y = NInf"
| "js_add x PInf = PInf"
| "js_add x NInf = NInf"

fun js_neg :: "num \<Rightarrow> num" where
  "js_neg (Fin a) = Fin (- a)"
| "js_neg PInf = NInf"
| "js_neg NInf = PInf"
| "js_neg NaN = NaN"

definition js_sub :: "num \<Rightarrow> num \<Rightarrow> num" where
  "js_sub x y = js_add x (js_neg y)"

fun js_mul :: "num \<Rightarrow> num \<Rightarrow> num" where
  "js_mul (Fin a) (Fin b) = rnd (a * b)"
| "js_mul NaN y = NaN"
| "js_mul x NaN = NaN"
| "js_mul x y = inf_of_sign (sign_of x * sign_of y)"

fun js_div :: "num \<Rightarrow> num \<Rightarrow> num" where
  "js_div (Fin a) (Fin b) = (if b = 0 then inf_of_sign (sign_of (Fin a)) else rnd (a / b))"
| "js_div NaN y = NaN"
| "js_div x NaN = NaN"
| "js_div (Fin a) y = Fin 0"
| "js_div x (Fin b) = inf_of_sign (sign_of x * (if 0 \<le> b then 1 else - 1))"
| "js_div x y = NaN"

text \<open>The comparison \<open>x < y\<close>; it is false when an operand is NaN.\<close>

fun js_lt :: "num \<Rightarrow> num \<Rightarrow> bool" where
  "js_lt NaN y = False"
| "js_lt x NaN = False"
| "js_lt (Fin a) (Fin b) = (a < b)"
| "js_lt x NInf = False"
| "js_lt PInf y = False"
| "js_lt x y = True"

text \<open>\<open>Math.min\<close> and \<open>Math.max\<close> of two numbers: NaN when an operand is NaN.\<close>

fun js_min :: "num \<Rightarrow> num \<Rightarrow> num" where
  "js_min NaN y = NaN"
| "js_min x NaN = NaN"
| "js_min x y = (if js_lt y x then y else x)"

fun js_max :: "num \<Rightarrow> num \<Rightarrow> num" where
  "js_max NaN y = NaN"
| "js_max x NaN = NaN"
| "js_max x y = (if js_lt x y then y else x)"

definition isInteger :: "num \<Rightarrow> bool" where
  "isInteger x = (case x of Fin r \<Rightarrow> of_int \<lfloor>r\<rfloor> = r | _ \<Rightarrow> False)"

text \<open>
  \<open>x.toFixed(2)\<close>: the integer \<open>n\<close> nearest to \<open>100 * |x|\<close>, the larger one of two, written
  in decimal with a point before its last two digits, for a magnitude below \<open>10^21\<close>.
\<close>

definition digit_char :: "nat \<Rightarrow> char" where
  "digit_char n = ''0123456789'' ! (n mod 10)"

function string_of_nat :: "nat \<Rightarrow> string" where
  "string_of_nat n =
     (if n < 10 then [digit_char n] else string_of_nat (n div 10) @ [digit_char (n mod 10)])"
  by pat_completeness auto
termination
  by (relation "measure id") auto

declare string_of_nat.simps [simp del]

definition toFixed2 :: "num \<Rightarrow> string" where
  "toFixed2 x =
     (case x of
        NaN \<Rightarrow> ''NaN''
      | PInf \<Rightarrow> ''Infinity''
      | NInf \<Rightarrow> ''-Infinity''
      | Fin r \<Rightarrow>
         let n = nat \<lfloor>\<bar>r\<bar> * 100 + 1 / 2\<rfloor>;
             m = string_of_nat n;
             m' = (if length m \<le> 2 then replicate (3 - length m) (CHR ''0'') @ m else m)
         in (if r < 0 then ''-'' else []) @ take (length m' - 2) m' @ ''.''
              @ drop (length m' - 2) m')"

text \<open>\<open>JSON.stringify\<close> of a number that holds an integer; an infinity and NaN give null.\<close>

definition jnum :: "num \<Rightarrow> jval" where
  "jnum x = (case x of Fin r \<Rightarrow> JNum \<lfloor>r\<rfloor> | _ \<Rightarrow> JNull)"

section \<open>The relational store\<close>

text \<open>
  Each table is the list of its rows; a row record has the columns that the handlers
  below read or write (timestamps are left out). \<open>db.query\<close> is modelled as answering every
  query: the \<open>catch\<close> branches of the handlers, which answer 500 when a query is
  rejected, are reached in the model only where a collaborator other than the store
  throws.
\<close>

record user =
  u_id :: nat
  u_name :: string
  u_email :: string
  u_password :: string
  u_role :: string
  u_status :: string

record player_profile =
  pp_user_id :: nat
  pp_date_of_birth :: "string option"
  pp_rating :: "num option"

record video =
  v_id :: nat
  v_player_id :: nat
  v_url :: string
  v_description :: string
  v_type :: string
  v_public_id :: "string option"

record like_row =
  l_id :: nat
  l_user_id :: nat
  l_video_id :: nat

record comment_row =
  c_id :: nat
  c_user_id :: nat
  c_video_id :: nat
  c_comment :: "nat list"

record tryout =
  t_id :: nat
  t_scout_id :: nat
  t_name :: string

record invitation =
  i_id :: nat
  i_tryout_id :: nat
  i_player_id :: nat
  i_status :: string

record notification =
  n_id :: nat
  n_user_id :: nat
  n_message :: string
  n_is_read :: bool

record stats_row =
  ps_id :: nat
  ps_player_id :: nat
  ps_matches_played :: num
  ps_goals :: num
  ps_assists :: num
  ps_yellow_cards :: num
  ps_red_cards :: num

record system_log =
  sl_id :: nat
  sl_user_id :: nat
  sl_action :: string
  sl_entity_type :: string
  sl_entity_id :: nat

record db =
  users :: "user list"
  player_profiles :: "player_profile list"
  videos :: "video list"
  likes :: "like_row list"
  comments :: "comment_row list"
  tryouts :: "tryout list"
  invitations :: "invitation list"
  notifications :: "notification list"
  player_stats :: "stats_row list"
  system_logs :: "system_log list"

text \<open>
  An \<open>AUTO_INCREMENT\<close> key: the inserted row gets an identifier that no row of the table
  has, here one past the largest.
\<close>

definition next_id :: "nat list \<Rightarrow> nat" where
  "next_id ids = Suc (fold max ids 0)"

section \<open>Collaborators\<close>

text \<open>
  The password hashing library, the token signer, the media store and the file system
  are outside the repository. Their answers are parameters of the model: a handler takes
  an environment that says what each call returns, or whether it throws.
  \<open>uploadBuffer name mimetype size\<close> is the answer of the media service to an upload,
  \<open>Inl m\<close> when it throws an error with message \<open>m\<close>; \<open>deleteFile public_id\<close> and
  \<open>fs_unlink path\<close> say whether the deletion resolves (\<open>True\<close>) or throws. The default
  of the \<open>status\<close> column of \<open>users\<close> belongs to the schema, which is not part of
  the repository either.

  What a handler does to the outside world is returned as a list of effects, in the
  order of the calls; \<open>Warn\<close> is a line written with \<open>console.warn\<close>.
\<close>

datatype effect = CloudUpload string | CloudDestroy string | FsUnlink string | Warn string

record upload_result =
  secure_url :: string
  public_id :: string
  bytes :: nat

record env =
  bcrypt_hash :: "string \<Rightarrow> string"
  bcrypt_compare :: "string \<Rightarrow> string \<Rightarrow> bool"
  jwt_sign :: "(string \<times> jval) list \<Rightarrow> string"
  status_default :: string
  cloudinary_configured :: bool
  uploadBuffer :: "string \<Rightarrow> string \<Rightarrow> nat \<Rightarrow> string + upload_result"
  deleteFile :: "string \<Rightarrow> bool"
  fs_unlink :: "string \<Rightarrow> bool"

section \<open>Accounts: \<open>register\<close> and \<open>login\<close>\<close>

record register_body =
  rb_name :: "string option"
  rb_email :: "string option"
  rb_password :: "string option"
  rb_confirmPassword :: "string option"
  rb_role :: "string option"
  rb_date_of_birth :: "string option"

definition users_by_email :: "db \<Rightarrow> string option \<Rightarrow> user list" where
  "users_by_email d e = (case e of None \<Rightarrow> [] | Some a \<Rightarrow> filter (\<lambda>u. u_email u = a) (users d))"

text \<open>
  \<open>register\<close>. The \<open>createdAt\<close> field of the answer's user, the clock's reading, is left
  out of the answer and of the signed payload.
\<close>

definition register :: "env \<Rightarrow> db \<Rightarrow> register_body \<Rightarrow> response \<times> db" where
  "register e d b =
    (if \<not> truthy (rb_name b) \<or> \<not> truthy (rb_email b) \<or> \<not> truthy (rb_password b)
        \<or> \<not> truthy (rb_role b) \<or> \<not> truthy (rb_confirmPassword b)
     then (msg 400 ''All fields are required'', d)
     else if rb_password b \<noteq> rb_confirmPassword b
     then (msg 400 ''Passwords do not match'', d)
     else if users_by_email d (rb_email b) \<noteq> []
     then (msg 409 ''Email already exists'', d)
     else
       let name = str_of (rb_name b); email = str_of (rb_email b); role = str_of (rb_role b);
           hashed = bcrypt_hash e (str_of (rb_password b));
           userId = next_id (map u_id (users d));
           d1 = d\<lparr>users := users d @
                  [\<lparr>u_id = userId, u_name = name, u_email = email, u_password = hashed,
                    u_role = role, u_status = status_default e\<rparr>]\<rparr>;
           d2 = (if role = ''player'' \<and> truthy (rb_date_of_birth b)
                 then d1\<lparr>player_profiles := player_profiles d1 @
                        [\<lparr>pp_user_id = userId, pp_date_of_birth = rb_date_of_birth b,
                          pp_rating = None\<rparr>]\<rparr>
                 else d1);
           usr = [(''id'', JNum (int userId)), (''name'', JStr name), (''email'', JStr email),
                  (''role'', JStr role)]
       in (json 201 [(''token'', JStr (jwt_sign e usr)), (''user'', JObj usr)], d2))"

record login_body =
  lb_email :: "string option"
  lb_password :: "string option"

text \<open>
  \<open>bcrypt.compare\<close> throws when the password is not a string; the handler's \<open>catch\<close>
  answers 500.
\<close>

definition login :: "env \<Rightarrow> db \<Rightarrow> login_body \<Rightarrow> response \<times> db" where
  "login e d b =
    (case users_by_email d (lb_email b) of
       [] \<Rightarrow> (msg 401 ''Invalid credentials'', d)
     | usr # _ \<Rightarrow>
        if u_status usr \<noteq> ''active''
        then (msg 403 ''Account is not active'', d)
        else (case lb_password b of
                None \<Rightarrow> (msg 500 ''Server error'', d)
              | Some password \<Rightarrow>
                 if \<not> bcrypt_compare e password (u_password usr)
                 then (msg 401 ''Invalid credentials'', d)
                 else (json 200
                         [(''token'', JStr (jwt_sign e [(''id'', JNum (int (u_id usr))),
                                                       (''role'', JStr (u_role usr))])),
                          (''user'', JObj [(''id'', JNum (int (u_id usr))),
                                           (''name'', JStr (u_name usr)),
                                           (''email'', JStr (u_email usr)),
                                           (''role'', JStr (u_role usr))])], d)))"

section \<open>Notifications\<close>

text \<open>
  \<open>createNotification\<close> inserts an unread row; the helpers of \<open>NotificationUtil\<close> format
  the message.
\<close>

definition createNotification :: "db \<Rightarrow> nat \<Rightarrow> string \<Rightarrow> db" where
  "createNotification d userId message =
     d\<lparr>notifications := notifications d @
        [\<lparr>n_id = next_id (map n_id (notifications d)), n_user_id = userId,
          n_message = message, n_is_read = False\<rparr>]\<rparr>"

definition or_else :: "string \<Rightarrow> string \<Rightarrow> string" where
  "or_else s dflt = (if s \<noteq> [] then s else dflt)"

definition createInvitationNotification :: "db \<Rightarrow> nat \<Rightarrow> string \<Rightarrow> string \<Rightarrow> db" where
  "createInvitationNotification d userId scoutName tryoutName =
     createNotification d userId
       (''You have received a new invitation from '' @ scoutName @ '' for the tryout: '' @ tryoutName)"

definition createCommentNotification :: "db \<Rightarrow> nat \<Rightarrow> string \<Rightarrow> string \<Rightarrow> db" where
  "createCommentNotification d userId commenterName videoTitle =
     createNotification d userId
       (commenterName @ '' commented on your video: '' @ or_else videoTitle ''Untitled'')"

definition createLikeNotification :: "db \<Rightarrow> nat \<Rightarrow> string \<Rightarrow> string \<Rightarrow> db" where
  "createLikeNotification d userId likerName videoTitle =
     createNotification d userId
       (likerName @ '' liked your video: '' @ or_else videoTitle ''Untitled'')"

definition createCustomNotification :: "db \<Rightarrow> nat \<Rightarrow> string \<Rightarrow> db" where
  "createCustomNotification d userId message = createNotification d userId message"

section \<open>Engagement: likes and comments\<close>

definition likes_of :: "db \<Rightarrow> nat \<Rightarrow> nat \<Rightarrow> like_row list" where
  "likes_of d userId vid = filter (\<lambda>l. l_user_id l = userId \<and> l_video_id l = vid) (likes d)"

definition like_count :: "db \<Rightarrow> nat \<Rightarrow> nat" where
  "like_count d vid = length (filter (\<lambda>l. l_video_id l = vid) (likes d))"

text \<open>
  \<open>SELECT ... FROM videos v JOIN users u ON u.id = ? WHERE v.id = ?\<close>: the video
  together with the acting user's row.
\<close>

definition video_and_actor :: "db \<Rightarrow> nat \<Rightarrow> nat \<Rightarrow> (video \<times> user) list" where
  "video_and_actor d userId vid =
     concat (map (\<lambda>v. map (\<lambda>u. (v, u)) (filter (\<lambda>u. u_id u = userId) (users d)))
                 (filter (\<lambda>v. v_id v = vid) (videos d)))"

definition likeVideo :: "db \<Rightarrow> nat \<Rightarrow> nat option \<Rightarrow> response \<times> db" where
  "likeVideo d userId videoId =
    (if \<not> truthy_id videoId then (msg 400 ''Video ID is required'', d)
     else let vid = id_of videoId in
       if filter (\<lambda>v. v_id v = vid) (videos d) = [] then (msg 404 ''Video not found'', d)
       else if likes_of d userId vid \<noteq> []
       then (json 200 [(''message'', JStr ''Already liked this video''),
                       (''alreadyLiked'', JBool True)], d)
       else
         let videoResult = video_and_actor d userId vid;
             d1 = d\<lparr>likes := likes d @
                    [\<lparr>l_id = next_id (map l_id (likes d)), l_user_id = userId,
                      l_video_id = vid\<rparr>]\<rparr>;
             d2 = (case videoResult of
                     [] \<Rightarrow> d1
                   | (v, u) # _ \<Rightarrow>
                       if v_player_id v \<noteq> userId
                       then createLikeNotification d1 (v_player_id v) (u_name u)
                              (or_else (v_description v) ''your video'')
                       else d1)
         in (json 201 [(''message'', JStr ''Liked video''),
                       (''likeCount'', JNum (int (like_count d2 vid)))], d2))"

definition unlikeVideo :: "db \<Rightarrow> nat \<Rightarrow> nat option \<Rightarrow> response \<times> db" where
  "unlikeVideo d userId videoId =
    (if \<not> param_given videoId then (msg 400 ''Video ID is required'', d)
     else let vid = id_of videoId in
       if filter (\<lambda>v. v_id v = vid) (videos d) = [] then (msg 404 ''Video not found'', d)
       else if likes_of d userId vid = []
       then (json 200 [(''message'', JStr ''Not liked''), (''alreadyUnliked'', JBool True)], d)
       else
         let d1 = d\<lparr>likes := filter (\<lambda>l. \<not> (l_user_id l = userId \<and> l_video_id l = vid))
                                  (likes d)\<rparr>
         in (json 200 [(''message'', JStr ''Unliked video''),
                       (''likeCount'', JNum (int (like_count d1 vid)))], d1))"

text \<open>
  The content of a comment is kept as a JavaScript string proper, the list of its UTF-16
  code units, since \<open>String.prototype.trim\<close> depends on them: it strips, at both ends,
  the white space (tab, vertical tab, form feed, space, no-break space, the byte order
  mark \<open>U+FEFF\<close> and the other space separators of Unicode) and the line terminators
  (line feed, carriage return, \<open>U+2028\<close>, \<open>U+2029\<close>).
\<close>

type_synonym jstext = "nat list"

definition is_space :: "nat \<Rightarrow> bool" where
  "is_space c =
     (c \<in> set [0x09, 0x0A, 0x0B, 0x0C, 0x0D, 0x20, 0xA0, 0x1680, 0x2028, 0x2029, 0x202F,
                0x205F, 0x3000, 0xFEFF]
      \<or> (0x2000 \<le> c \<and> c \<le> 0x200A))"

definition trim :: "jstext \<Rightarrow> jstext" where
  "trim s = rev (dropWhile is_space (rev (dropWhile is_space s)))"

record auth_user =
  au_id :: nat
  au_role :: string

definition addComment :: "db \<Rightarrow> auth_user \<Rightarrow> nat option \<Rightarrow> jstext option \<Rightarrow> response \<times> db" where
  "addComment d usr videoId content =
    (if au_role usr \<noteq> ''player'' then (msg 403 ''Only players can post comments.'', d)
     else if \<not> truthy_id videoId \<or> \<not> truthy (map_option trim content)
     then (msg 400 ''Video ID and comment content are required'', d)
     else
       let vid = id_of videoId;
           videoResult = video_and_actor d (au_id usr) vid;
           d1 = d\<lparr>comments := comments d @
                  [\<lparr>c_id = next_id (map c_id (comments d)), c_user_id = au_id usr,
                    c_video_id = vid, c_comment = trim (str_of content)\<rparr>]\<rparr>;
           d2 = (case videoResult of
                   [] \<Rightarrow> d1
                 | (v, u) # _ \<Rightarrow>
                     if v_player_id v \<noteq> au_id usr
                     then createCommentNotification d1 (v_player_id v) (u_name u)
                            (or_else (v_description v) ''your video'')
                     else d1)
       in (msg 201 ''Comment added'', d2))"

section \<open>Tryouts and invitations\<close>

text \<open>
  The join of \<open>updateInvitationStatus\<close>: the invitation of this player with this id, its
  tryout and the user who owns the tryout.
\<close>

definition invitation_details :: "db \<Rightarrow> nat \<Rightarrow> nat \<Rightarrow> (invitation \<times> tryout \<times> user) list" where
  "invitation_details d invitationId playerId =
     concat (map (\<lambda>i.
       concat (map (\<lambda>t. map (\<lambda>u. (i, t, u)) (filter (\<lambda>u. u_id u = t_scout_id t) (users d)))
                   (filter (\<lambda>t. t_id t = i_tryout_id i) (tryouts d))))
       (filter (\<lambda>i. i_id i = invitationId \<and> i_player_id i = playerId) (invitations d)))"

definition updateInvitationStatus :: "db \<Rightarrow> nat \<Rightarrow> nat \<Rightarrow> string option \<Rightarrow> response \<times> db" where
  "updateInvitationStatus d playerId invitationId st =
    (if st \<notin> set [Some ''accepted'', Some ''declined'']
     then (msg 400 ''Status must be accepted or declined'', d)
     else
       (case invitation_details d invitationId playerId of
          [] \<Rightarrow> (msg 404 ''Invitation not found or unauthorized'', d)
        | (i, t, u) # _ \<Rightarrow>
           let d1 = d\<lparr>invitations :=
                        map (\<lambda>r. if i_id r = invitationId then r\<lparr>i_status := str_of st\<rparr> else r)
                            (invitations d)\<rparr>;
               playerName = (case filter (\<lambda>p. u_id p = playerId) (users d1) of
                               [] \<Rightarrow> ''A player''
                             | p # _ \<Rightarrow> or_else (u_name p) ''A player'');
               d2 = createCustomNotification d1 (u_id u)
                      (playerName @ '' has '' @ str_of st @ '' your invitation to the tryout: ''
                         @ t_name t)
           in (msg 200 (''Invitation '' @ str_of st @ '' successfully''), d2)))"

definition invitations_for :: "db \<Rightarrow> nat \<Rightarrow> nat \<Rightarrow> invitation list" where
  "invitations_for d tid pid =
     filter (\<lambda>i. i_tryout_id i = tid \<and> i_player_id i = pid) (invitations d)"

definition insert_invitation :: "db \<Rightarrow> nat \<Rightarrow> nat \<Rightarrow> db" where
  "insert_invitation d tid pid =
     d\<lparr>invitations := invitations d @
        [\<lparr>i_id = next_id (map i_id (invitations d)), i_tryout_id = tid, i_player_id = pid,
          i_status = ''pending''\<rparr>]\<rparr>"

text \<open>
  \<open>sendInvitation\<close> is the handler of \<open>POST /player/invitations/send\<close>, \<open>invitePlayer\<close>
  the one of \<open>POST /scout/invite\<close>; both are open to scouts only.
\<close>

definition sendInvitation :: "db \<Rightarrow> nat \<Rightarrow> nat option \<Rightarrow> nat option \<Rightarrow> response \<times> db" where
  "sendInvitation d scoutId tryoutId playerId =
    (if \<not> truthy_id tryoutId \<or> \<not> truthy_id playerId
     then (msg 400 ''Tryout ID and Player ID are required'', d)
     else if filter (\<lambda>t. t_id t = id_of tryoutId \<and> t_scout_id t = scoutId) (tryouts d) = []
     then (msg 403 ''Unauthorized or tryout not found'', d)
     else if invitations_for d (id_of tryoutId) (id_of playerId) \<noteq> []
     then (msg 400 ''Invitation already sent'', d)
     else (msg 200 ''Invitation sent successfully'',
           insert_invitation d (id_of tryoutId) (id_of playerId)))"

definition scout_and_tryout :: "db \<Rightarrow> nat \<Rightarrow> nat \<Rightarrow> (user \<times> tryout) list" where
  "scout_and_tryout d tid scoutId =
     concat (map (\<lambda>u. map (\<lambda>t. (u, t))
                   (filter (\<lambda>t. t_scout_id t = u_id u \<and> t_id t = tid \<and> t_scout_id t = scoutId)
                           (tryouts d)))
                 (users d))"

definition invitePlayer :: "db \<Rightarrow> nat \<Rightarrow> nat option \<Rightarrow> nat option \<Rightarrow> response \<times> db" where
  "invitePlayer d scoutId tryout_id player_id =
    (if \<not> truthy_id tryout_id \<or> \<not> truthy_id player_id
     then (msg 400 ''Tryout and Player IDs are required'', d)
     else
       (case scout_and_tryout d (id_of tryout_id) scoutId of
          [] \<Rightarrow> (msg 403 ''You are not the owner of this tryout'', d)
        | (u, t) # _ \<Rightarrow>
           if invitations_for d (id_of tryout_id) (id_of player_id) \<noteq> []
           then (msg 409 ''Player already invited to this tryout'', d)
           else (msg 201 ''Player invited successfully'',
                 createInvitationNotification
                   (insert_invitation d (id_of tryout_id) (id_of player_id))
                   (id_of player_id) (u_name u) (t_name t))))"

text \<open>
  The join of \<open>cancelInvitation\<close>: the invitation with this id, its tryout when the
  calling scout owns it, and the user row of the invited player.
\<close>

definition owned_invitation :: "db \<Rightarrow> nat \<Rightarrow> nat \<Rightarrow> (invitation \<times> tryout \<times> user) list" where
  "owned_invitation d invitationId scoutId =
     concat (map (\<lambda>i.
       concat (map (\<lambda>t. map (\<lambda>u. (i, t, u)) (filter (\<lambda>u. u_id u = i_player_id i) (users d)))
                   (filter (\<lambda>t. t_id t = i_tryout_id i \<and> t_scout_id t = scoutId) (tryouts d))))
       (filter (\<lambda>i. i_id i = invitationId) (invitations d)))"

text \<open>\<open>toLowerCase\<close>, for the letters of ASCII, of which the stored statuses consist.\<close>

definition toLowerCase :: "string \<Rightarrow> string" where
  "toLowerCase s =
     map (\<lambda>c. let n = (of_char c :: nat) in if 65 \<le> n \<and> n \<le> 90 then char_of (n + 32) else c) s"

definition cancelInvitation :: "db \<Rightarrow> nat \<Rightarrow> nat option \<Rightarrow> response \<times> db" where
  "cancelInvitation d scoutId invitationId =
    (if \<not> param_given invitationId then (msg 400 ''Invitation ID is required'', d)
     else
       (case owned_invitation d (id_of invitationId) scoutId of
          [] \<Rightarrow> (msg 404 ''Invitation not found or unauthorized'', d)
        | (i, t, u) # _ \<Rightarrow>
           if i_status i \<noteq> ''pending''
           then (msg 400 (''Cannot cancel an invitation that has been '' @ toLowerCase (i_status i)),
                 d)
           else
             let d1 = d\<lparr>invitations :=
                          filter (\<lambda>r. i_id r \<noteq> id_of invitationId) (invitations d)\<rparr>;
                 d2 = createCustomNotification d1 (i_player_id i)
                        (''Your invitation to the tryout '' @ [CHR 0x22] @ t_name t @ [CHR 0x22]
                           @ '' has been canceled'')
             in (msg 200 ''Invitation canceled successfully'', d2)))"

section \<open>Media\<close>

record upload_file =
  f_originalname :: string
  f_mimetype :: string
  f_size :: nat

record js_error =
  err_code :: "string option"
  err_message :: string

text \<open>
  The upload service: the file filter with its list of mimetypes, and the limit on the
  length of a file, 20 MB.
\<close>

definition allowedTypes :: "string list" where
  "allowedTypes =
     [''video/mp4'', ''video/webm'', ''image/jpeg'', ''image/png'', ''image/jpg'',
      ''image/webp'']"

definition fileFilter :: "upload_file \<Rightarrow> js_error + bool" where
  "fileFilter f =
     (if f_mimetype f \<in> set allowedTypes then Inr True
      else Inl \<lparr>err_code = None,
                err_message = ''Invalid file type: '' @ f_mimetype f
                  @ ''. Only MP4, WebM, JPEG, PNG, JPG, and WebP are allowed.''\<rparr>)"

definition fileSize :: nat where
  "fileSize = 20 * 1024 * 1024"

text \<open>
  \<open>upload.single('file')\<close> of the multipart library, as configured in the upload service:
  a request without a file part goes on with \<open>req.file\<close> undefined; the file filter is
  asked as soon as the part's header is read, and its error ends the request; a part
  that passed the filter is read into memory, and ends the request with an error of code
  \<open>LIMIT_FILE_SIZE\<close> when it is longer than the limit.
\<close>

definition upload_single :: "upload_file option \<Rightarrow> js_error + upload_file option" where
  "upload_single part =
     (case part of
        None \<Rightarrow> Inr None
      | Some f \<Rightarrow>
         (case fileFilter f of
            Inl err \<Rightarrow> Inl err
          | Inr _ \<Rightarrow>
             if fileSize < f_size f
             then Inl \<lparr>err_code = Some ''LIMIT_FILE_SIZE'', err_message = ''File too large''\<rparr>
             else Inr (Some f)))"

text \<open>
  The error handler that the application mounts last: 500 with a fixed message, whatever
  the error.
\<close>

definition errorHandler :: "js_error \<Rightarrow> response" where
  "errorHandler err = msg 500 ''Something went wrong!''"

definition handleUploadErrors :: "js_error \<Rightarrow> response" where
  "handleUploadErrors err =
     (if err_code err = Some ''LIMIT_FILE_SIZE''
      then json 413 [(''message'', JStr ''File size too large. Maximum allowed size is 20MB.''),
                     (''error'', JStr ''FILE_TOO_LARGE'')]
      else if err_message err \<noteq> [] \<and> includes_str (err_message err) ''Invalid file type''
      then json 415 [(''message'', JStr (err_message err)),
                     (''error'', JStr ''INVALID_FILE_TYPE'')]
      else errorHandler err)"

text \<open>
  \<open>uploadMedia\<close>. The name under which the service is asked to store the file holds the
  clock's reading; the effect records the file's own name. Of the answer's \<open>data\<close> the
  file name, which the path library derives from the URL, is left out.
\<close>

definition uploadMedia ::
  "env \<Rightarrow> db \<Rightarrow> auth_user \<Rightarrow> upload_file option \<Rightarrow> string option \<Rightarrow> response \<times> db \<times> effect list" where
  "uploadMedia e d usr file description =
    (if au_role usr \<noteq> ''player'' then (msg 403 ''Only players can upload media.'', d, [])
     else
       (case file of
          None \<Rightarrow> (msg 400 ''File is required'', d, [])
        | Some f \<Rightarrow>
           if \<not> cloudinary_configured e then (msg 500 ''Server configuration error'', d, [])
           else
             let type = (if startsWith (f_mimetype f) ''image/'' then ''image'' else ''video'') in
             (case uploadBuffer e (f_originalname f) (f_mimetype f) (f_size f) of
                Inl m \<Rightarrow>
                  (if m \<noteq> [] \<and> includes_str m ''payload too large''
                   then json 413
                          [(''message'', JStr ''File size too large. Maximum allowed size is 20MB.''),
                           (''error'', JStr ''PAYLOAD_TOO_LARGE'')]
                   else if m \<noteq> [] \<and> includes_str m ''cloudinary''
                   then json 500 [(''message'', JStr ''Error uploading to cloud storage''),
                                  (''error'', JStr ''CLOUDINARY_ERROR'')]
                   else json 500 [(''message'', JStr ''Server error during upload''),
                                  (''error'', JStr (or_else m ''UNKNOWN_ERROR''))],
                   d, [CloudUpload (f_originalname f)])
              | Inr r \<Rightarrow>
                  (json 201
                     [(''message'', JStr ((if type = ''image'' then ''Image'' else ''Video'')
                                          @ '' uploaded successfully'')),
                      (''url'', JStr (secure_url r)),
                      (''data'', JObj [(''url'', JStr (secure_url r)),
                                       (''type'', JStr (f_mimetype f)),
                                       (''size'', JNum (int (bytes r)))])],
                   d\<lparr>videos := videos d @
                       [\<lparr>v_id = next_id (map v_id (videos d)), v_player_id = au_id usr,
                         v_url = secure_url r, v_description = str_of description,
                         v_type = type, v_public_id = Some (public_id r)\<rparr>]\<rparr>,
                   [CloudUpload (f_originalname f)]))))"

text \<open>
  \<open>POST /player/upload\<close>, after the token has been verified: the role middleware, the
  multipart stage with its error handler, then the controller.
\<close>

definition role_mw :: "string list \<Rightarrow> auth_user \<Rightarrow> bool" where
  "role_mw roles usr = (au_role usr \<in> set roles)"

definition upload_route ::
  "env \<Rightarrow> db \<Rightarrow> auth_user \<Rightarrow> upload_file option \<Rightarrow> string option \<Rightarrow> response \<times> db \<times> effect list" where
  "upload_route e d usr part description =
    (if \<not> role_mw [''player''] usr
     then (msg 403 ''Access denied. Required role: player'', d, [])
     else
       (case upload_single part of
          Inl err \<Rightarrow> (handleUploadErrors err, d, [])
        | Inr None \<Rightarrow> (msg 400 ''File is required'', d, [])
        | Inr (Some f) \<Rightarrow> uploadMedia e d usr (Some f) description))"

text \<open>
  Deleting a video, by the player who owns it and by an admin. The remote deletion and
  the removal of a local file stand in a \<open>try\<close> whose \<open>catch\<close> writes a warning.
\<close>

definition deleteVideo :: "env \<Rightarrow> db \<Rightarrow> nat \<Rightarrow> nat \<Rightarrow> response \<times> db \<times> effect list" where
  "deleteVideo e d playerId videoId =
    (case filter (\<lambda>v. v_id v = videoId \<and> v_player_id v = playerId) (videos d) of
       [] \<Rightarrow> (msg 404 ''Video not found or unauthorized'', d, [])
     | v # _ \<Rightarrow>
        let fx =
          (if truthy (v_public_id v)
           then CloudDestroy (str_of (v_public_id v)) #
                  (if deleteFile e (str_of (v_public_id v)) then []
                   else [Warn ''[Delete from Cloudinary Warning]''])
           else if v_url v \<noteq> [] \<and> \<not> includes_str (v_url v) ''cloudinary''
           then FsUnlink (v_url v) #
                  (if fs_unlink e (v_url v) then [] else [Warn ''[Delete Video File Warning]''])
           else [])
        in (msg 200 ''Video deleted successfully'',
            d\<lparr>videos := filter (\<lambda>r. v_id r \<noteq> videoId) (videos d)\<rparr>, fx))"

definition logAdminAction :: "db \<Rightarrow> nat \<Rightarrow> string \<Rightarrow> string \<Rightarrow> nat \<Rightarrow> db" where
  "logAdminAction d userId action entityType entityId =
     d\<lparr>system_logs := system_logs d @
        [\<lparr>sl_id = next_id (map sl_id (system_logs d)), sl_user_id = userId, sl_action = action,
          sl_entity_type = entityType, sl_entity_id = entityId\<rparr>]\<rparr>"

definition admin_deleteVideo :: "env \<Rightarrow> db \<Rightarrow> nat \<Rightarrow> nat \<Rightarrow> response \<times> db \<times> effect list" where
  "admin_deleteVideo e d adminId videoId =
    (case filter (\<lambda>v. v_id v = videoId) (videos d) of
       [] \<Rightarrow> (msg 404 ''Video not found'', d, [])
     | v # _ \<Rightarrow>
        let fx =
          (if truthy (v_public_id v)
           then CloudDestroy (str_of (v_public_id v)) #
                  (if deleteFile e (str_of (v_public_id v)) then []
                   else [Warn ''[Delete from Cloudinary Warning]''])
           else []);
            d1 = d\<lparr>videos := filter (\<lambda>r. v_id r \<noteq> videoId) (videos d)\<rparr>;
            d2 = logAdminAction d1 adminId ''DELETE'' ''video'' videoId
        in (msg 200 ''Video deleted'', d2, fx))"

section \<open>Performance statistics and the rating\<close>

record stats_body =
  sb_matches_played :: "num option"
  sb_goals :: "num option"
  sb_assists :: "num option"
  sb_yellow_cards :: "num option"
  sb_red_cards :: "num option"

text \<open>\<open>Number(x)\<close> of a field that holds a number; \<open>Number(undefined)\<close> is NaN.\<close>

definition num_of :: "num option \<Rightarrow> num" where
  "num_of x = (case x of None \<Rightarrow> NaN | Some v \<Rightarrow> v)"

text \<open>The loop over the entries of \<open>stats\<close>: the first key whose value is refused.\<close>

fun first_invalid :: "(string \<times> num) list \<Rightarrow> string option" where
  "first_invalid [] = None"
| "first_invalid ((key, v) # rest) =
     (if js_lt v (Fin 0) \<or> \<not> isInteger v then Some key else first_invalid rest)"

definition updatePerformanceStats :: "db \<Rightarrow> nat \<Rightarrow> stats_body \<Rightarrow> response \<times> db" where
  "updatePerformanceStats d playerId b =
    (if sb_matches_played b = None \<or> sb_goals b = None \<or> sb_assists b = None
        \<or> sb_yellow_cards b = None \<or> sb_red_cards b = None
     then (msg 400 ''All statistics fields are required'', d)
     else
       let matches_played = num_of (sb_matches_played b); goals = num_of (sb_goals b);
           assists = num_of (sb_assists b); yellow_cards = num_of (sb_yellow_cards b);
           red_cards = num_of (sb_red_cards b)
       in
       (case first_invalid [(''matches_played'', matches_played), (''goals'', goals),
                            (''assists'', assists), (''yellow_cards'', yellow_cards),
                            (''red_cards'', red_cards)] of
          Some key \<Rightarrow> (msg 400 (key @ '' must be a non-negative integer''), d)
        | None \<Rightarrow>
           let rating =
                 (if js_lt (Fin 0) matches_played
                  then
                    let numerator =
                          js_sub (js_sub (js_add (js_mul goals (Fin 2)) assists) yellow_cards)
                                 (js_mul red_cards (Fin 3));
                        denominator = matches_played;
                        rawRating = js_div numerator denominator;
                        scaledRating =
                          js_add (js_mul (js_div (js_add rawRating (Fin 3)) (Fin 6)) (Fin 4)) (Fin 1)
                    in js_max (Fin 1) (js_min (Fin 5) scaledRating)
                  else Fin 1);
               d1 = (if filter (\<lambda>r. ps_player_id r = playerId) (player_stats d) \<noteq> []
                     then d\<lparr>player_stats :=
                            map (\<lambda>r. if ps_player_id r = playerId
                                      then r\<lparr>ps_matches_played := matches_played, ps_goals := goals,
                                             ps_assists := assists, ps_yellow_cards := yellow_cards,
                                             ps_red_cards := red_cards\<rparr>
                                      else r)
                                (player_stats d)\<rparr>
                     else d\<lparr>player_stats := player_stats d @
                            [\<lparr>ps_id = next_id (map ps_id (player_stats d)), ps_player_id = playerId,
                              ps_matches_played = matches_played, ps_goals = goals,
                              ps_assists = assists, ps_yellow_cards = yellow_cards,
                              ps_red_cards = red_cards\<rparr>]\<rparr>);
               d2 = d1\<lparr>player_profiles :=
                         map (\<lambda>p. if pp_user_id p = playerId then p\<lparr>pp_rating := Some rating\<rparr> else p)
                             (player_profiles d1)\<rparr>
           in (json 200
                 [(''message'', JStr ''Performance statistics updated successfully''),
                  (''stats'', JObj [(''matches_played'', jnum matches_played), (''goals'', jnum goals),
                                    (''assists'', jnum assists), (''yellow_cards'', jnum yellow_cards),
                                    (''red_cards'', jnum red_cards)]),
                  (''rating'', JStr (toFixed2 rating))], d2)))"

text \<open>
  The rating as the specification writes it, read over the rational numbers: the formula
  of the specification, clamped to the interval from 1 to 5. It is the value with which
  the rating of the handler is compared.
\<close>

definition clamp :: "rat \<Rightarrow> rat \<Rightarrow> rat \<Rightarrow> rat" where
  "clamp x lo hi = max lo (min hi x)"

definition spec_rating :: "nat \<Rightarrow> nat \<Rightarrow> nat \<Rightarrow> nat \<Rightarrow> nat \<Rightarrow> rat" where
  "spec_rating matches_played goals assists yellow_cards red_cards =
     (if 0 < matches_played
      then clamp (((2 * of_nat goals + of_nat assists - of_nat yellow_cards - 3 * of_nat red_cards)
                     / of_nat matches_played + 3) / 6 * 4 + 1) 1 5
      else 1)"

section \<open>A small store for the examples\<close>

text \<open>
  Two players (the second one suspended), a scout and an admin; one video of the first
  player; one tryout of the scout with an accepted and a pending invitation. The media
  service of \<open>env0\<close> stores every upload and fails every deletion.
\<close>

definition env0 :: env where
  "env0 =
     \<lparr>bcrypt_hash = (\<lambda>p. ''#'' @ p),
      bcrypt_compare = (\<lambda>p h. h = ''#'' @ p),
      jwt_sign = (\<lambda>payload. ''token''),
      status_default = ''active'',
      cloudinary_configured = True,
      uploadBuffer = (\<lambda>name mime n. Inr \<lparr>secure_url = ''https://media/'' @ name,
                                              public_id = ''pharaohs/'' @ name, bytes = n\<rparr>),
      deleteFile = (\<lambda>pid. False),
      fs_unlink = (\<lambda>path. True)\<rparr>"

definition ali :: user where
  "ali = \<lparr>u_id = 1, u_name = ''Ali'', u_email = ''ali@club.eg'', u_password = ''#pw1'',
          u_role = ''player'', u_status = ''active''\<rparr>"

definition sara :: user where
  "sara = \<lparr>u_id = 2, u_name = ''Sara'', u_email = ''sara@scout.eg'', u_password = ''#pw2'',
           u_role = ''scout'', u_status = ''active''\<rparr>"

definition omar :: user where
  "omar = \<lparr>u_id = 3, u_name = ''Omar'', u_email = ''omar@club.eg'', u_password = ''#pw3'',
           u_role = ''player'', u_status = ''suspended''\<rparr>"

definition root :: user where
  "root = \<lparr>u_id = 4, u_name = ''Root'', u_email = ''root@pharaohs.eg'', u_password = ''#pw4'',
           u_role = ''admin'', u_status = ''active''\<rparr>"

definition clip :: video where
  "clip = \<lparr>v_id = 1, v_player_id = 1, v_url = ''https://media/goal.mp4'',
           v_description = ''Goal'', v_type = ''video'', v_public_id = Some ''pharaohs/goal''\<rparr>"

definition trial :: tryout where
  "trial = \<lparr>t_id = 1, t_scout_id = 2, t_name = ''Spring trial''\<rparr>"

definition inv_ali :: invitation where
  "inv_ali = \<lparr>i_id = 1, i_tryout_id = 1, i_player_id = 1, i_status = ''accepted''\<rparr>"

definition inv_omar :: invitation where
  "inv_omar = \<lparr>i_id = 2, i_tryout_id = 1, i_player_id = 3, i_status = ''pending''\<rparr>"

definition db0 :: db where
  "db0 =
     \<lparr>users = [ali, sara, omar, root],
      player_profiles = [\<lparr>pp_user_id = 1, pp_date_of_birth = None, pp_rating = None\<rparr>],
      videos = [clip],
      likes = [],
      comments = [],
      tryouts = [trial],
      invitations = [inv_ali, inv_omar],
      notifications = [],
      player_stats = [],
      system_logs = []\<rparr>"

definition liked_once :: db where
  "liked_once = snd (likeVideo db0 2 (Some 1))"

definition example_stats :: stats_body where
  "example_stats =
     \<lparr>sb_matches_played = Some (Fin 10), sb_goals = Some (Fin 5), sb_assists = Some (Fin 3),
      sb_yellow_cards = Some (Fin 1), sb_red_cards = Some (Fin 0)\<rparr>"


text \<open>The comment \<open>" Nice"\<close> followed by a no-break space.\<close>

definition nice :: jstext where
  "nice = [0x20, 0x4E, 0x69, 0x63, 0x65, 0xA0]"

definition ali_auth :: auth_user where
  "ali_auth = \<lparr>au_id = 1, au_role = ''player''\<rparr>"

definition movie :: upload_file where
  "movie = \<lparr>f_originalname = ''run.mp4'', f_mimetype = ''video/mp4'', f_size = 5000000\<rparr>"

section \<open>Auxiliary facts\<close>

lemmas ex_defs =
  db0_def ali_def sara_def omar_def root_def clip_def trial_def inv_ali_def inv_omar_def

lemma fold_max_ge_acc: "(a::nat) \<le> fold max ids a"
proof (induction ids arbitrary: a)
  case Nil
  then show ?case by simp
next
  case (Cons y ys)
  have "a \<le> max y a" by simp
  also have "\<dots> \<le> fold max ys (max y a)" by (rule Cons.IH)
  finally show ?case by simp
qed

lemma fold_max_ge_elem: "x \<in> set ids \<Longrightarrow> (x::nat) \<le> fold max ids a"
proof (induction ids arbitrary: a)
  case Nil
  then show ?case by simp
next
  case (Cons y ys)
  show ?case
  proof (cases "x = y")
    case True
    have "y \<le> max y a" by simp
    also have "\<dots> \<le> fold max ys (max y a)" by (rule fold_max_ge_acc)
    finally show ?thesis using True by simp
  next
    case False
    with Cons show ?thesis by simp
  qed
qed

lemma next_id_fresh: "next_id ids \<notin> set ids"
proof
  assume "next_id ids \<in> set ids"
  then have "next_id ids \<le> fold max ids 0" by (rule fold_max_ge_elem)
  then show False by (simp add: next_id_def)
qed

lemma likeVideo_duplicate:
  assumes "vid \<noteq> 0" and "filter (\<lambda>v. v_id v = vid) (videos d) \<noteq> []"
    and "likes_of d userId vid \<noteq> []"
  shows "likeVideo d userId (Some vid)
         = (json 200 [(''message'', JStr ''Already liked this video''),
                      (''alreadyLiked'', JBool True)], d)"
  using assms by (simp add: likeVideo_def truthy_id_def id_of_def)

lemma likes_createLikeNotification [simp]:
  "likes (createLikeNotification d u n t) = likes d"
  by (simp add: createLikeNotification_def createNotification_def)

lemma videos_createLikeNotification [simp]:
  "videos (createLikeNotification d u n t) = videos d"
  by (simp add: createLikeNotification_def createNotification_def)

lemma likeVideo_fresh:
  assumes "vid \<noteq> 0" and "filter (\<lambda>v. v_id v = vid) (videos d) \<noteq> []"
    and "likes_of d userId vid = []"
  shows "fst (likeVideo d userId (Some vid))
           = json 201 [(''message'', JStr ''Liked video''),
                       (''likeCount'', JNum (int (like_count d vid) + 1))]"
    and "likes (snd (likeVideo d userId (Some vid)))
           = likes d @ [\<lparr>l_id = next_id (map l_id (likes d)), l_user_id = userId,
                          l_video_id = vid\<rparr>]"
    and "videos (snd (likeVideo d userId (Some vid))) = videos d"
  using assms
  by (auto simp add: likeVideo_def truthy_id_def id_of_def Let_def like_count_def ac_simps
        split: list.splits)

lemma concat_map_Nil: "concat (map (\<lambda>x. []) xs) = []"
  by (induction xs) simp_all

lemma video_and_actor_first:
  assumes "filter (\<lambda>v. v_id v = vid) (videos d) = v # vs"
    and "video_and_actor d userId vid = (v', u') # rest"
  shows "v' = v"
proof (cases "filter (\<lambda>u. u_id u = userId) (users d)")
  case Nil
  with assms(2) show ?thesis
    by (simp add: video_and_actor_def concat_map_Nil)
next
  case (Cons u us)
  with assms show ?thesis
    by (simp add: video_and_actor_def)
qed

lemma video_and_actor_sound:
  "(v, u) \<in> set (video_and_actor d userId vid) \<Longrightarrow>
     v \<in> set (videos d) \<and> v_id v = vid \<and> u \<in> set (users d) \<and> u_id u = userId"
  by (auto simp add: video_and_actor_def)

lemma invitations_createCustomNotification [simp]:
  "invitations (createCustomNotification d u m) = invitations d"
  by (simp add: createCustomNotification_def createNotification_def)

lemma updateInvitationStatus_invalid:
  "st \<notin> set [Some ''accepted'', Some ''declined''] \<Longrightarrow>
     updateInvitationStatus d playerId invitationId st
       = (msg 400 ''Status must be accepted or declined'', d)"
  by (simp add: updateInvitationStatus_def)

lemma updateInvitationStatus_found:
  assumes "invitation_details d invitationId playerId \<noteq> []"
    and "s = ''accepted'' \<or> s = ''declined''"
  shows "fst (updateInvitationStatus d playerId invitationId (Some s))
           = msg 200 (''Invitation '' @ s @ '' successfully'')"
    and "invitations (snd (updateInvitationStatus d playerId invitationId (Some s)))
           = map (\<lambda>r. if i_id r = invitationId then r\<lparr>i_status := s\<rparr> else r) (invitations d)"
  using assms
  by (auto simp add: updateInvitationStatus_def str_of_def Let_def split: list.splits)

text \<open>
  What the join of \<open>cancelInvitation\<close> finds: exactly the invitations with the given id
  whose tryout belongs to the calling scout and whose player has a row in \<open>users\<close>.
\<close>

lemma owned_invitation_iff:
  "(i, t, u) \<in> set (owned_invitation d invitationId scoutId) \<longleftrightarrow>
     i \<in> set (invitations d) \<and> i_id i = invitationId \<and> t \<in> set (tryouts d)
     \<and> t_id t = i_tryout_id i \<and> t_scout_id t = scoutId \<and> u \<in> set (users d)
     \<and> u_id u = i_player_id i"
  by (auto simp add: owned_invitation_def)

text \<open>A duplicate invitation inserts nothing, through either handler.\<close>

lemma duplicate_invitation_inserts_nothing:
  assumes "invitations_for d tid pid \<noteq> []"
  shows "snd (sendInvitation d scoutId (Some tid) (Some pid)) = d"
    and "snd (invitePlayer d scoutId (Some tid) (Some pid)) = d"
  using assms
  by (auto simp add: sendInvitation_def invitePlayer_def id_of_def split: list.splits)

lemma startsWith_append [simp]: "startsWith (p @ s) p"
  by (induction p) simp_all

lemma includes_str_prefix: "includes_str (p @ s) p"
proof (cases "p @ s")
  case Nil
  then show ?thesis by simp
next
  case (Cons a l)
  have "startsWith (p @ s) p" by simp
  then show ?thesis unfolding Cons by simp
qed

lemma fileFilter_refuses:
  "f_mimetype f \<notin> set allowedTypes \<Longrightarrow>
     handleUploadErrors (case fileFilter f of Inl err \<Rightarrow> err)
       = json 415 [(''message'', JStr (''Invalid file type: '' @ f_mimetype f
                      @ ''. Only MP4, WebM, JPEG, PNG, JPG, and WebP are allowed.'')),
                   (''error'', JStr ''INVALID_FILE_TYPE'')]"
  using includes_str_prefix [of "''Invalid file type''" "'': '' @ f_mimetype f
                      @ ''. Only MP4, WebM, JPEG, PNG, JPG, and WebP are allowed.''"]
  by (simp add: fileFilter_def handleUploadErrors_def)

text \<open>Evaluating the arithmetic of doubles on numerals.\<close>

lemma ilog2_numeral [simp]:
  "ilog2 (numeral k) = (if numeral k < (2::nat) then 0 else Suc (ilog2 (numeral k div 2)))"
  by (rule ilog2.simps)

lemma ilog2_0 [simp]: "ilog2 0 = 0"
  by (simp add: ilog2.simps)

lemma ilog2_1 [simp]: "ilog2 (Suc 0) = 0"
  by (simp add: ilog2.simps)

lemma floor_divide_numeral_rat [simp]:
  "\<lfloor>numeral a / numeral b :: rat\<rfloor> = numeral a div numeral b"
  by (metis floor_divide_of_int_eq of_int_numeral)

lemma floor_one_divide_numeral_rat [simp]:
  "\<lfloor>1 / numeral b :: rat\<rfloor> = 1 div numeral b"
  by (metis floor_divide_of_int_eq of_int_1 of_int_numeral)

lemma ceiling_divide_numeral_rat [simp]:
  "\<lceil>numeral a / numeral b :: rat\<rceil> = - (- numeral a div numeral b)"
  by (metis ceiling_def floor_divide_of_int_eq minus_divide_left of_int_minus of_int_numeral)

lemmas fl_eval = rnd_def fl_def flog2_def pow2_def round_even_def max_double_def Let_def







lemma js_mul_commute: "js_mul x y = js_mul y x"
  by (cases x; cases y) (simp_all add: mult.commute)

lemma isInteger_of_nat [simp]: "isInteger (Fin (of_nat n))"
  by (simp add: isInteger_def)

text \<open>
  The handler on a body of five non-negative integers, with the arithmetic in the order
  of the source.
\<close>

lemma updatePerformanceStats_status:
  fixes m g a y r :: nat
  shows "status (fst (updatePerformanceStats d playerId
           \<lparr>sb_matches_played = Some (Fin (of_nat m)), sb_goals = Some (Fin (of_nat g)),
            sb_assists = Some (Fin (of_nat a)), sb_yellow_cards = Some (Fin (of_nat y)),
            sb_red_cards = Some (Fin (of_nat r))\<rparr>)) = 200"
  by (simp del: js_add.simps js_mul.simps js_div.simps js_min.simps js_max.simps
        add: updatePerformanceStats_def num_of_def Let_def json_def)

lemma updatePerformanceStats_answer:
  fixes m g a y r :: nat
  shows "map_of (body (fst (updatePerformanceStats d playerId
           \<lparr>sb_matches_played = Some (Fin (of_nat m)), sb_goals = Some (Fin (of_nat g)),
            sb_assists = Some (Fin (of_nat a)), sb_yellow_cards = Some (Fin (of_nat y)),
            sb_red_cards = Some (Fin (of_nat r))\<rparr>))) ''rating''
         = Some (JStr (toFixed2
             (if 0 < m
              then js_max (Fin 1) (js_min (Fin 5)
                     (js_add (js_mul (js_div (js_add
                        (js_div (js_sub (js_sub (js_add (js_mul (Fin (of_nat g)) (Fin 2))
                                                        (Fin (of_nat a)))
                                                (Fin (of_nat y)))
                                        (js_mul (Fin (of_nat r)) (Fin 3)))
                                (Fin (of_nat m)))
                        (Fin 3)) (Fin 6)) (Fin 4)) (Fin 1)))
              else Fin 1)))"
  by (simp del: js_add.simps js_mul.simps js_div.simps js_min.simps js_max.simps
        add: updatePerformanceStats_def num_of_def Let_def json_def)

lemma updatePerformanceStats_profiles:
  fixes m g a y r :: nat
  shows "player_profiles (snd (updatePerformanceStats d playerId
           \<lparr>sb_matches_played = Some (Fin (of_nat m)), sb_goals = Some (Fin (of_nat g)),
            sb_assists = Some (Fin (of_nat a)), sb_yellow_cards = Some (Fin (of_nat y)),
            sb_red_cards = Some (Fin (of_nat r))\<rparr>))
         = map (\<lambda>p. if pp_user_id p = playerId
                     then p\<lparr>pp_rating := Some
                       (if 0 < m
                        then js_max (Fin 1) (js_min (Fin 5)
                               (js_add (js_mul (js_div (js_add
                                  (js_div (js_sub (js_sub (js_add (js_mul (Fin (of_nat g)) (Fin 2))
                                                                  (Fin (of_nat a)))
                                                          (Fin (of_nat y)))
                                                  (js_mul (Fin (of_nat r)) (Fin 3)))
                                          (Fin (of_nat m)))
                                  (Fin 3)) (Fin 6)) (Fin 4)) (Fin 1)))
                        else Fin 1)\<rparr>
                     else p)
               (player_profiles d)"
  by (simp del: js_add.simps js_mul.simps js_div.simps js_min.simps js_max.simps
        add: updatePerformanceStats_def num_of_def Let_def json_def)

section \<open>Properties of the account handlers\<close>

text \<open>
  C9. A login whose email finds a user whose status is not \<open>active\<close> is answered 403
  whatever the password: the status is checked before the password is compared, so the
  answer (and the store) is the same for any two passwords, right, wrong or missing.
\<close>

theorem login_status_before_password:
  assumes "users_by_email d email = usr # rest" and "u_status usr \<noteq> ''active''"
  shows "login e d \<lparr>lb_email = email, lb_password = pw\<rparr>
           = (msg 403 ''Account is not active'', d)
       \<and> login e d \<lparr>lb_email = email, lb_password = pw\<rparr>
           = login e d \<lparr>lb_email = email, lb_password = pw'\<rparr>"
  using assms by (simp add: login_def)

theorem login_status_before_password_witness:
  "login env0 db0 \<lparr>lb_email = Some ''omar@club.eg'', lb_password = Some ''pw3''\<rparr>
     = (msg 403 ''Account is not active'', db0)
   \<and> login env0 db0 \<lparr>lb_email = Some ''omar@club.eg'', lb_password = Some ''pw3''\<rparr>
     = login env0 db0 \<lparr>lb_email = Some ''omar@club.eg'', lb_password = Some ''wrong''\<rparr>"
proof -
  have found: "users_by_email db0 (Some ''omar@club.eg'') = omar # []"
    by (simp add: users_by_email_def ex_defs)
  have inactive: "u_status omar \<noteq> ''active''"
    by (simp add: omar_def)
  show ?thesis
    by (rule login_status_before_password [OF found inactive])
qed

text \<open>
  C7. A registration whose email belongs to an existing user inserts nothing; when its
  required fields are there and the two passwords agree it is answered 409. A
  registration with a required field missing or with two different passwords is answered
  400 and the store is left as it was (these checks come first, so they also decide the
  answer when the email exists).
\<close>

theorem register_rejections:
  "(users_by_email d (rb_email b) \<noteq> [] \<longrightarrow>
       snd (register e d b) = d
       \<and> (truthy (rb_name b) \<and> truthy (rb_email b) \<and> truthy (rb_password b)
            \<and> truthy (rb_role b) \<and> truthy (rb_confirmPassword b)
            \<and> rb_password b = rb_confirmPassword b
          \<longrightarrow> register e d b = (msg 409 ''Email already exists'', d)))
   \<and> (\<not> truthy (rb_name b) \<or> \<not> truthy (rb_email b) \<or> \<not> truthy (rb_password b)
        \<or> \<not> truthy (rb_role b) \<or> \<not> truthy (rb_confirmPassword b)
        \<or> rb_password b \<noteq> rb_confirmPassword b
       \<longrightarrow> status (fst (register e d b)) = 400 \<and> snd (register e d b) = d)"
  by (simp add: register_def msg_def json_def)

theorem register_rejections_witness:
  "register env0 db0
     \<lparr>rb_name = Some ''Ali B'', rb_email = Some ''ali@club.eg'', rb_password = Some ''s3cret'',
      rb_confirmPassword = Some ''s3cret'', rb_role = Some ''scout'', rb_date_of_birth = None\<rparr>
     = (msg 409 ''Email already exists'', db0)
   \<and> status (fst (register env0 db0
        \<lparr>rb_name = Some ''New'', rb_email = Some ''new@club.eg'', rb_password = Some ''s3cret'',
         rb_confirmPassword = Some ''secret'', rb_role = Some ''player'',
         rb_date_of_birth = None\<rparr>)) = 400
   \<and> snd (register env0 db0
        \<lparr>rb_name = Some ''New'', rb_email = Some ''new@club.eg'', rb_password = Some ''s3cret'',
         rb_confirmPassword = Some ''secret'', rb_role = Some ''player'',
         rb_date_of_birth = None\<rparr>) = db0"
proof -
  let ?dup = "\<lparr>rb_name = Some ''Ali B'', rb_email = Some ''ali@club.eg'',
                rb_password = Some ''s3cret'', rb_confirmPassword = Some ''s3cret'',
                rb_role = Some ''scout'', rb_date_of_birth = None\<rparr>"
  let ?bad = "\<lparr>rb_name = Some ''New'', rb_email = Some ''new@club.eg'',
                rb_password = Some ''s3cret'', rb_confirmPassword = Some ''secret'',
                rb_role = Some ''player'', rb_date_of_birth = None\<rparr>"
  have taken: "users_by_email db0 (rb_email ?dup) \<noteq> []"
    by (simp add: users_by_email_def ex_defs)
  have well_formed: "truthy (rb_name ?dup) \<and> truthy (rb_email ?dup) \<and> truthy (rb_password ?dup)
      \<and> truthy (rb_role ?dup) \<and> truthy (rb_confirmPassword ?dup)
      \<and> rb_password ?dup = rb_confirmPassword ?dup"
    by (simp add: truthy_def)
  have mismatch: "\<not> truthy (rb_name ?bad) \<or> \<not> truthy (rb_email ?bad) \<or> \<not> truthy (rb_password ?bad)
      \<or> \<not> truthy (rb_role ?bad) \<or> \<not> truthy (rb_confirmPassword ?bad)
      \<or> rb_password ?bad \<noteq> rb_confirmPassword ?bad"
    by simp
  from register_rejections [of db0 ?dup env0] taken well_formed
  have "register env0 db0 ?dup = (msg 409 ''Email already exists'', db0)"
    by blast
  moreover from register_rejections [of db0 ?bad env0] mismatch
  have "status (fst (register env0 db0 ?bad)) = 400 \<and> snd (register env0 db0 ?bad) = db0"
    by blast
  ultimately show ?thesis by blast
qed

section \<open>Properties of likes and comments\<close>

text \<open>
  C2, as the code has it. For an existing video, a like by a user who has already liked
  it is answered 200 with the flag \<open>alreadyLiked\<close> and leaves the store as it was, so no
  second row is inserted; that answer carries no like count. A first like is answered
  201 with the recomputed count, one more than before. Liking the same video twice
  therefore raises the number of like rows of the video by exactly one, the count that
  the first answer reports, and leaves exactly one row of this user for the video.
\<close>

theorem like_twice_counts_once:
  assumes "vid \<noteq> 0" and "filter (\<lambda>v. v_id v = vid) (videos d) \<noteq> []"
  shows "(likes_of d userId vid \<noteq> [] \<longrightarrow>
            likeVideo d userId (Some vid)
              = (json 200 [(''message'', JStr ''Already liked this video''),
                           (''alreadyLiked'', JBool True)], d))
       \<and> (likes_of d userId vid = [] \<longrightarrow>
            fst (likeVideo d userId (Some vid))
              = json 201 [(''message'', JStr ''Liked video''),
                          (''likeCount'', JNum (int (like_count d vid) + 1))]
            \<and> likeVideo (snd (likeVideo d userId (Some vid))) userId (Some vid)
              = (json 200 [(''message'', JStr ''Already liked this video''),
                           (''alreadyLiked'', JBool True)], snd (likeVideo d userId (Some vid)))
            \<and> like_count (snd (likeVideo d userId (Some vid))) vid = like_count d vid + 1
            \<and> length (likes_of (snd (likeVideo d userId (Some vid))) userId vid) = 1)"
proof (intro conjI impI)
  assume "likes_of d userId vid \<noteq> []"
  with assms show "likeVideo d userId (Some vid)
              = (json 200 [(''message'', JStr ''Already liked this video''),
                           (''alreadyLiked'', JBool True)], d)"
    by (rule likeVideo_duplicate)
next
  assume fresh: "likes_of d userId vid = []"
  let ?d' = "snd (likeVideo d userId (Some vid))"
  note f = likeVideo_fresh [OF assms fresh]
  show "fst (likeVideo d userId (Some vid))
              = json 201 [(''message'', JStr ''Liked video''),
                          (''likeCount'', JNum (int (like_count d vid) + 1))]"
    by (rule f(1))
  have liked: "likes_of ?d' userId vid
                 = [\<lparr>l_id = next_id (map l_id (likes d)), l_user_id = userId, l_video_id = vid\<rparr>]"
    using fresh by (simp add: likes_of_def f(2))
  show "length (likes_of ?d' userId vid) = 1"
    by (simp add: liked)
  show "like_count ?d' vid = like_count d vid + 1"
    by (simp add: like_count_def f(2))
  have "filter (\<lambda>v. v_id v = vid) (videos ?d') \<noteq> []"
    using assms(2) by (simp add: f(3))
  moreover have "likes_of ?d' userId vid \<noteq> []"
    by (simp add: liked)
  ultimately show "likeVideo ?d' userId (Some vid)
              = (json 200 [(''message'', JStr ''Already liked this video''),
                           (''alreadyLiked'', JBool True)], ?d')"
    using assms(1) by (intro likeVideo_duplicate)
qed

theorem like_twice_counts_once_witness:
  "fst (likeVideo db0 2 (Some 1))
     = json 201 [(''message'', JStr ''Liked video''), (''likeCount'', JNum 1)]
   \<and> likeVideo liked_once 2 (Some 1)
     = (json 200 [(''message'', JStr ''Already liked this video''),
                  (''alreadyLiked'', JBool True)], liked_once)
   \<and> like_count liked_once 1 = 1"
proof -
  have id: "(1::nat) \<noteq> 0" by simp
  have there: "filter (\<lambda>v. v_id v = 1) (videos db0) \<noteq> []"
    by (simp add: ex_defs)
  have fresh: "likes_of db0 2 1 = []"
    by (simp add: likes_of_def db0_def)
  have none: "like_count db0 1 = 0"
    by (simp add: like_count_def db0_def)
  from like_twice_counts_once [OF id there, of 2] fresh none
  show ?thesis by (simp add: liked_once_def)
qed

text \<open>
  That both answers carry the like count fails on the second one: after the scout has
  liked the video once (the first answer reports the count 1), the same like again is
  answered 200 without any \<open>likeCount\<close>.
\<close>

theorem duplicate_like_reports_no_count:
  "map_of (body (fst (likeVideo db0 2 (Some 1)))) ''likeCount'' = Some (JNum 1)
   \<and> status (fst (likeVideo liked_once 2 (Some 1))) = 200
   \<and> map_of (body (fst (likeVideo liked_once 2 (Some 1)))) ''likeCount'' = None"
  by (simp add: liked_once_def likeVideo_def truthy_id_def id_of_def likes_of_def like_count_def
        video_and_actor_def createLikeNotification_def createNotification_def or_else_def
        next_id_def json_def ex_defs)

text \<open>
  The no-op path of \<open>unlikeVideo\<close> is built like the one of \<open>likeVideo\<close>: a flag, no
  count, the store as it was.
\<close>

lemma unlikeVideo_not_liked:
  assumes "filter (\<lambda>v. v_id v = vid) (videos d) \<noteq> []"
    and "likes_of d userId vid = []"
  shows "unlikeVideo d userId (Some vid)
         = (json 200 [(''message'', JStr ''Not liked''), (''alreadyUnliked'', JBool True)], d)"
  using assms by (simp add: unlikeVideo_def param_given_def id_of_def)

text \<open>
  C10. Liking or commenting on one's own video creates no notification, while the like
  or comment row is inserted: for the video that the request names, owned by the acting
  user, the notifications are left as they were; and whenever either handler does add a
  notification, the owner of the video is not the acting user. The comment is inserted
  when its content, trimmed by \<open>String.prototype.trim\<close>, is not empty, and the row holds
  the trimmed content.
\<close>

theorem own_video_no_notification:
  assumes "filter (\<lambda>v. v_id v = vid) (videos d) = v # vs" and "vid \<noteq> 0"
  shows "(v_player_id v = userId \<and> likes_of d userId vid = [] \<longrightarrow>
            notifications (snd (likeVideo d userId (Some vid))) = notifications d
            \<and> likes (snd (likeVideo d userId (Some vid)))
                = likes d @ [\<lparr>l_id = next_id (map l_id (likes d)), l_user_id = userId,
                               l_video_id = vid\<rparr>])
       \<and> (notifications (snd (likeVideo d userId (Some vid))) \<noteq> notifications d \<longrightarrow>
            v_player_id v \<noteq> userId)
       \<and> (v_player_id v = au_id usr \<and> au_role usr = ''player''
            \<and> truthy (map_option trim content) \<longrightarrow>
            notifications (snd (addComment d usr (Some vid) content)) = notifications d
            \<and> comments (snd (addComment d usr (Some vid) content))
                = comments d @ [\<lparr>c_id = next_id (map c_id (comments d)), c_user_id = au_id usr,
                                  c_video_id = vid, c_comment = trim (str_of content)\<rparr>])
       \<and> (notifications (snd (addComment d usr (Some vid) content)) \<noteq> notifications d \<longrightarrow>
            v_player_id v \<noteq> au_id usr)"
proof -
  have like_own: "notifications (snd (likeVideo d userId (Some vid))) = notifications d"
    if "v_player_id v = userId"
  proof (cases "video_and_actor d userId vid")
    case Nil
    then show ?thesis
      by (simp add: likeVideo_def Let_def id_of_def)
  next
    case (Cons p rest)
    obtain v' u' where p: "p = (v', u')" by (cases p)
    with Cons assms(1) have "v' = v" by (auto dest: video_and_actor_first)
    with that Cons p show ?thesis
      by (simp add: likeVideo_def Let_def id_of_def)
  qed
  have comment_own: "notifications (snd (addComment d usr (Some vid) content)) = notifications d"
    if "v_player_id v = au_id usr"
  proof (cases "video_and_actor d (au_id usr) vid")
    case Nil
    then show ?thesis
      by (simp add: addComment_def Let_def id_of_def)
  next
    case (Cons p rest)
    obtain v' u' where p: "p = (v', u')" by (cases p)
    with Cons assms(1) have "v' = v" by (auto dest: video_and_actor_first)
    with that Cons p show ?thesis
      by (simp add: addComment_def Let_def id_of_def)
  qed
  have like_row: "likes (snd (likeVideo d userId (Some vid)))
                = likes d @ [\<lparr>l_id = next_id (map l_id (likes d)), l_user_id = userId,
                               l_video_id = vid\<rparr>]"
    if "likes_of d userId vid = []"
    using assms that by (intro likeVideo_fresh(2)) simp_all
  have comment_row: "comments (snd (addComment d usr (Some vid) content))
                = comments d @ [\<lparr>c_id = next_id (map c_id (comments d)), c_user_id = au_id usr,
                                  c_video_id = vid, c_comment = trim (str_of content)\<rparr>]"
    if "au_role usr = ''player''" and "truthy (map_option trim content)"
    using assms(2) that
    by (auto simp add: addComment_def Let_def id_of_def truthy_id_def
          createCommentNotification_def createNotification_def split: list.splits)
  show ?thesis
    using like_own like_row comment_own comment_row by blast
qed

theorem own_video_no_notification_witness:
  "notifications (snd (likeVideo db0 1 (Some 1))) = notifications db0
   \<and> likes (snd (likeVideo db0 1 (Some 1))) = [\<lparr>l_id = 1, l_user_id = 1, l_video_id = 1\<rparr>]
   \<and> v_player_id clip \<noteq> 2
   \<and> notifications (snd (addComment db0 ali_auth (Some 1) (Some nice))) = notifications db0
   \<and> comments (snd (addComment db0 ali_auth (Some 1) (Some nice)))
       = [\<lparr>c_id = 1, c_user_id = 1, c_video_id = 1, c_comment = [0x4E, 0x69, 0x63, 0x65]\<rparr>]"
proof -
  have there: "filter (\<lambda>v. v_id v = 1) (videos db0) = clip # []"
    by (simp add: ex_defs)
  have id: "(1::nat) \<noteq> 0" by simp
  have own: "v_player_id clip = 1 \<and> likes_of db0 1 1 = []"
    by (simp add: likes_of_def ex_defs)
  have other: "notifications (snd (likeVideo db0 2 (Some 1))) \<noteq> notifications db0"
    by (simp add: likeVideo_def truthy_id_def id_of_def likes_of_def video_and_actor_def
          createLikeNotification_def createNotification_def Let_def ex_defs)
  have own_comment: "v_player_id clip = au_id ali_auth \<and> au_role ali_auth = ''player''
      \<and> truthy (map_option trim (Some nice))"
    by (simp add: ali_auth_def clip_def truthy_def trim_def is_space_def nice_def)
  have trimmed: "trim (str_of (Some nice)) = [0x4E, 0x69, 0x63, 0x65]"
    by (simp add: trim_def is_space_def str_of_def nice_def)
  have fresh_ids: "next_id (map l_id (likes db0)) = 1" "next_id (map c_id (comments db0)) = 1"
    by (simp_all add: next_id_def db0_def)
  have empty: "likes db0 = []" "comments db0 = []"
    by (simp_all add: db0_def)
  from own_video_no_notification
         [OF there id, where userId = 1 and usr = ali_auth and content = "Some nice"]
       own own_comment
  have a: "notifications (snd (likeVideo db0 1 (Some 1))) = notifications db0
      \<and> likes (snd (likeVideo db0 1 (Some 1)))
          = likes db0 @ [\<lparr>l_id = next_id (map l_id (likes db0)), l_user_id = 1, l_video_id = 1\<rparr>]
      \<and> notifications (snd (addComment db0 ali_auth (Some 1) (Some nice))) = notifications db0
      \<and> comments (snd (addComment db0 ali_auth (Some 1) (Some nice)))
          = comments db0 @ [\<lparr>c_id = next_id (map c_id (comments db0)), c_user_id = au_id ali_auth,
                              c_video_id = 1, c_comment = trim (str_of (Some nice))\<rparr>]"
    by blast
  from own_video_no_notification [OF there id, where userId = 2] other
  have b: "v_player_id clip \<noteq> 2"
    by blast
  from a b show ?thesis
    by (simp add: trimmed fresh_ids empty ali_auth_def next_id_def)
qed

text \<open>
  A comment that consists of white space only, here a no-break space, a space, a byte
  order mark and an em space, is refused, and nothing is inserted.
\<close>

lemma addComment_blank:
  "addComment db0 ali_auth (Some 1) (Some [0xA0, 0x20, 0xFEFF, 0x2003])
     = (msg 400 ''Video ID and comment content are required'', db0)"
  by (simp add: addComment_def ali_auth_def truthy_def truthy_id_def trim_def is_space_def)

section \<open>Properties of the invitation handlers\<close>

text \<open>
  C3, as the code has it. The status update of the invited player takes only
  \<open>accepted\<close> and \<open>declined\<close> as the new status: any other value is answered 400 and
  changes nothing, so no update ever sets an invitation to \<open>pending\<close>. It does not look
  at the current status: for every invitation of the calling player whose tryout and
  scout exist, whatever its status, the update is answered 200 and sets the status of the
  invitation to the requested one, leaving the other invitations as they were.
\<close>

theorem updateInvitationStatus_overwrites:
  "(st \<notin> set [Some ''accepted'', Some ''declined''] \<longrightarrow>
      updateInvitationStatus d playerId invitationId st
        = (msg 400 ''Status must be accepted or declined'', d))
   \<and> (invitation_details d invitationId playerId \<noteq> [] \<and> (s = ''accepted'' \<or> s = ''declined'')
      \<longrightarrow>
        status (fst (updateInvitationStatus d playerId invitationId (Some s))) = 200
        \<and> invitations (snd (updateInvitationStatus d playerId invitationId (Some s)))
            = map (\<lambda>r. if i_id r = invitationId then r\<lparr>i_status := s\<rparr> else r) (invitations d))
   \<and> (\<forall>r \<in> set (invitations (snd (updateInvitationStatus d playerId invitationId st))).
         i_status r = ''pending'' \<longrightarrow> r \<in> set (invitations d))"
proof (intro conjI impI)
  assume "st \<notin> set [Some ''accepted'', Some ''declined'']"
  then show "updateInvitationStatus d playerId invitationId st
        = (msg 400 ''Status must be accepted or declined'', d)"
    by (rule updateInvitationStatus_invalid)
next
  assume h: "invitation_details d invitationId playerId \<noteq> []
             \<and> (s = ''accepted'' \<or> s = ''declined'')"
  then show "status (fst (updateInvitationStatus d playerId invitationId (Some s))) = 200"
    by (simp add: updateInvitationStatus_found(1) msg_def json_def)
  from h show "invitations (snd (updateInvitationStatus d playerId invitationId (Some s)))
            = map (\<lambda>r. if i_id r = invitationId then r\<lparr>i_status := s\<rparr> else r) (invitations d)"
    by (simp add: updateInvitationStatus_found(2))
next
  show "\<forall>r \<in> set (invitations (snd (updateInvitationStatus d playerId invitationId st))).
         i_status r = ''pending'' \<longrightarrow> r \<in> set (invitations d)"
    by (auto simp add: updateInvitationStatus_def str_of_def Let_def split: list.splits if_splits)
qed

theorem updateInvitationStatus_overwrites_witness:
  "updateInvitationStatus db0 1 1 None = (msg 400 ''Status must be accepted or declined'', db0)
   \<and> status (fst (updateInvitationStatus db0 3 2 (Some ''accepted''))) = 200
   \<and> invitations (snd (updateInvitationStatus db0 3 2 (Some ''accepted'')))
       = [inv_ali, inv_omar\<lparr>i_status := ''accepted''\<rparr>]
   \<and> inv_omar \<in> set (invitations db0)"
proof -
  have bad: "None \<notin> set [Some ''accepted'', Some ''declined'']" by simp
  have found: "invitation_details db0 2 3 \<noteq> []
      \<and> (''accepted'' = ''accepted'' \<or> ''accepted'' = ''declined'')"
    by (simp add: invitation_details_def ex_defs)
  from updateInvitationStatus_overwrites
         [where st = None and d = db0 and playerId = 1 and invitationId = 1] bad
  have a: "updateInvitationStatus db0 1 1 None
             = (msg 400 ''Status must be accepted or declined'', db0)"
    by blast
  from updateInvitationStatus_overwrites
         [where d = db0 and playerId = 3 and invitationId = 2 and s = "''accepted''"] found
  have b: "status (fst (updateInvitationStatus db0 3 2 (Some ''accepted''))) = 200
      \<and> invitations (snd (updateInvitationStatus db0 3 2 (Some ''accepted'')))
          = map (\<lambda>r. if i_id r = 2 then r\<lparr>i_status := ''accepted''\<rparr> else r) (invitations db0)"
    by blast
  have c: "map (\<lambda>r. if i_id r = 2 then r\<lparr>i_status := ''accepted''\<rparr> else r) (invitations db0)
        = [inv_ali, inv_omar\<lparr>i_status := ''accepted''\<rparr>]"
    by (simp add: ex_defs)
  have still: "inv_omar \<in> set (invitations (snd (updateInvitationStatus db0 1 1
                                  (Some ''declined''))))"
    by (simp add: updateInvitationStatus_def invitation_details_def str_of_def ex_defs)
  have pending: "i_status inv_omar = ''pending''"
    by (simp add: inv_omar_def)
  from updateInvitationStatus_overwrites
         [where st = "Some ''declined''" and d = db0 and playerId = 1 and invitationId = 1]
       still pending
  have e: "inv_omar \<in> set (invitations db0)"
    by blast
  from a b c e show ?thesis by simp
qed

text \<open>
  That \<open>accepted\<close> and \<open>declined\<close> are final for the invited player fails: the
  invitation of the first player is accepted, and the player's next update to \<open>declined\<close>
  is answered 200 and changes its status.
\<close>

theorem accepted_invitation_declined_afterwards:
  "i_status inv_ali = ''accepted''
   \<and> inv_ali \<in> set (invitations db0)
   \<and> status (fst (updateInvitationStatus db0 1 1 (Some ''declined''))) = 200
   \<and> invitations (snd (updateInvitationStatus db0 1 1 (Some ''declined'')))
       = [inv_ali\<lparr>i_status := ''declined''\<rparr>, inv_omar]"
  by (simp add: updateInvitationStatus_def invitation_details_def str_of_def
        createCustomNotification_def createNotification_def or_else_def next_id_def
        msg_def json_def ex_defs)

text \<open>
  C4. The first player is already invited to the tryout. The scout who owns the tryout
  invites the player again: \<open>invitePlayer\<close> answers 409, \<open>sendInvitation\<close> answers 400;
  neither inserts a row.
\<close>

theorem sendInvitation_duplicate_answers_400:
  "invitations_for db0 1 1 = [inv_ali]
   \<and> sendInvitation db0 2 (Some 1) (Some 1) = (msg 400 ''Invitation already sent'', db0)
   \<and> invitePlayer db0 2 (Some 1) (Some 1)
       = (msg 409 ''Player already invited to this tryout'', db0)"
  by (simp add: sendInvitation_def invitePlayer_def invitations_for_def scout_and_tryout_def
        truthy_id_def id_of_def ex_defs)

theorem sendInvitation_duplicate_answers_400_witness:
  "status (fst (sendInvitation db0 2 (Some 1) (Some 1))) = 400
   \<and> status (fst (invitePlayer db0 2 (Some 1) (Some 1))) = 409
   \<and> invitations (snd (sendInvitation db0 2 (Some 1) (Some 1))) = [inv_ali, inv_omar]"
  using sendInvitation_duplicate_answers_400
  by (simp add: msg_def json_def db0_def)

text \<open>
  C5. For an invitation that the join of \<open>cancelInvitation\<close> finds for the calling scout
  (the tryout is the scout's, and the invited player has a row in \<open>users\<close>): when its
  status is not \<open>pending\<close>, so when it is accepted or declined, the answer is 400 and the
  store is left as it was; when it is \<open>pending\<close>, the answer is 200, the invitation row
  is deleted and one unread notification for the invited player is appended.
\<close>

theorem cancelInvitation_pending_only:
  assumes "owned_invitation d invitationId scoutId = (i, t, u) # rest"
  shows "(i_status i \<noteq> ''pending'' \<longrightarrow>
            status (fst (cancelInvitation d scoutId (Some invitationId))) = 400
            \<and> snd (cancelInvitation d scoutId (Some invitationId)) = d)
       \<and> (i_status i = ''pending'' \<longrightarrow>
            status (fst (cancelInvitation d scoutId (Some invitationId))) = 200
            \<and> invitations (snd (cancelInvitation d scoutId (Some invitationId)))
                = filter (\<lambda>r. i_id r \<noteq> invitationId) (invitations d)
            \<and> notifications (snd (cancelInvitation d scoutId (Some invitationId)))
                = notifications d @
                  [\<lparr>n_id = next_id (map n_id (notifications d)), n_user_id = i_player_id i,
                    n_message = ''Your invitation to the tryout '' @ [CHR 0x22] @ t_name t
                                @ [CHR 0x22] @ '' has been canceled'',
                    n_is_read = False\<rparr>])"
  using assms
  by (simp add: cancelInvitation_def param_given_def id_of_def Let_def msg_def json_def
        createCustomNotification_def createNotification_def)

theorem cancelInvitation_pending_only_witness:
  "status (fst (cancelInvitation db0 2 (Some 1))) = 400
   \<and> snd (cancelInvitation db0 2 (Some 1)) = db0
   \<and> status (fst (cancelInvitation db0 2 (Some 2))) = 200
   \<and> invitations (snd (cancelInvitation db0 2 (Some 2))) = [inv_ali]
   \<and> map n_user_id (notifications (snd (cancelInvitation db0 2 (Some 2)))) = [3]"
proof -
  have resolved: "owned_invitation db0 1 2 = (inv_ali, trial, ali) # []"
    by (simp add: owned_invitation_def ex_defs)
  have open_one: "owned_invitation db0 2 2 = (inv_omar, trial, omar) # []"
    by (simp add: owned_invitation_def ex_defs)
  have s1: "i_status inv_ali \<noteq> ''pending''" by (simp add: inv_ali_def)
  have s2: "i_status inv_omar = ''pending''" by (simp add: inv_omar_def)
  from cancelInvitation_pending_only [OF resolved] s1
  have a: "status (fst (cancelInvitation db0 2 (Some 1))) = 400
      \<and> snd (cancelInvitation db0 2 (Some 1)) = db0"
    by simp
  from cancelInvitation_pending_only [OF open_one] s2
  have b: "status (fst (cancelInvitation db0 2 (Some 2))) = 200
      \<and> invitations (snd (cancelInvitation db0 2 (Some 2)))
          = filter (\<lambda>r. i_id r \<noteq> 2) (invitations db0)
      \<and> notifications (snd (cancelInvitation db0 2 (Some 2)))
          = notifications db0 @
            [\<lparr>n_id = next_id (map n_id (notifications db0)), n_user_id = i_player_id inv_omar,
              n_message = ''Your invitation to the tryout '' @ [CHR 0x22] @ t_name trial
                          @ [CHR 0x22] @ '' has been canceled'',
              n_is_read = False\<rparr>]"
    by simp
  from a b show ?thesis
    by (simp add: ex_defs)
qed

section \<open>Properties of the media handlers\<close>

text \<open>
  C6. For an upload by a player that carries a file: a mimetype outside the allowed list
  of six is answered 415, and a file of an allowed mimetype that is longer than the
  limit of 20 MB is answered 413 (the filter is asked first, so a file that is both is
  answered 415); in both cases the store is left as it was and no call to the media
  service is made. When the upload is answered 201, the row appended to \<open>videos\<close> has the type
  \<open>image\<close> if the mimetype starts with \<open>image/\<close> and the type \<open>video\<close> otherwise.
\<close>

theorem upload_validation:
  assumes "au_role usr = ''player''"
  shows "(f_mimetype f \<notin> set allowedTypes \<longrightarrow>
            status (fst (upload_route e d usr (Some f) description)) = 415
            \<and> snd (upload_route e d usr (Some f) description) = (d, []))
       \<and> (f_mimetype f \<in> set allowedTypes \<and> fileSize < f_size f \<longrightarrow>
            status (fst (upload_route e d usr (Some f) description)) = 413
            \<and> snd (upload_route e d usr (Some f) description) = (d, []))
       \<and> (status (fst (upload_route e d usr (Some f) description)) = 201 \<longrightarrow>
            (\<exists>r. uploadBuffer e (f_originalname f) (f_mimetype f) (f_size f) = Inr r
                \<and> videos (fst (snd (upload_route e d usr (Some f) description)))
                  = videos d @
                    [\<lparr>v_id = next_id (map v_id (videos d)), v_player_id = au_id usr,
                      v_url = secure_url r, v_description = str_of description,
                      v_type = (if startsWith (f_mimetype f) ''image/'' then ''image''
                                else ''video''),
                      v_public_id = Some (public_id r)\<rparr>]))"
proof (intro conjI impI)
  assume bad: "f_mimetype f \<notin> set allowedTypes"
  have "upload_route e d usr (Some f) description
          = (handleUploadErrors (case fileFilter f of Inl err \<Rightarrow> err), d, [])"
    using assms bad by (simp add: upload_route_def role_mw_def upload_single_def fileFilter_def)
  then show "status (fst (upload_route e d usr (Some f) description)) = 415"
    and "snd (upload_route e d usr (Some f) description) = (d, [])"
    using bad by (simp_all add: fileFilter_refuses json_def)
next
  assume big: "f_mimetype f \<in> set allowedTypes \<and> fileSize < f_size f"
  then have "upload_route e d usr (Some f) description
          = (handleUploadErrors
               \<lparr>err_code = Some ''LIMIT_FILE_SIZE'', err_message = ''File too large''\<rparr>, d, [])"
    using assms by (simp add: upload_route_def role_mw_def upload_single_def fileFilter_def)
  then show "status (fst (upload_route e d usr (Some f) description)) = 413"
    and "snd (upload_route e d usr (Some f) description) = (d, [])"
    by (simp_all add: handleUploadErrors_def json_def)
next
  assume ok: "status (fst (upload_route e d usr (Some f) description)) = 201"
  show "\<exists>r. uploadBuffer e (f_originalname f) (f_mimetype f) (f_size f) = Inr r
                \<and> videos (fst (snd (upload_route e d usr (Some f) description)))
                  = videos d @
                    [\<lparr>v_id = next_id (map v_id (videos d)), v_player_id = au_id usr,
                      v_url = secure_url r, v_description = str_of description,
                      v_type = (if startsWith (f_mimetype f) ''image/'' then ''image''
                                else ''video''),
                      v_public_id = Some (public_id r)\<rparr>]"
    using ok assms
    by (auto simp add: upload_route_def role_mw_def upload_single_def uploadMedia_def
          handleUploadErrors_def errorHandler_def msg_def json_def Let_def
          split: sum.splits option.splits if_splits)
qed

theorem upload_validation_witness:
  "status (fst (upload_route env0 db0 ali_auth
                  (Some (movie\<lparr>f_mimetype := ''application/pdf''\<rparr>)) None)) = 415
   \<and> snd (upload_route env0 db0 ali_auth
             (Some (movie\<lparr>f_mimetype := ''application/pdf''\<rparr>)) None) = (db0, [])
   \<and> status (fst (upload_route env0 db0 ali_auth
                    (Some (movie\<lparr>f_size := 20971521\<rparr>)) None)) = 413
   \<and> snd (upload_route env0 db0 ali_auth (Some (movie\<lparr>f_size := 20971521\<rparr>)) None)
       = (db0, [])
   \<and> map v_type (videos (fst (snd (upload_route env0 db0 ali_auth (Some movie) None))))
       = [''video'', ''video'']"
proof -
  have player: "au_role ali_auth = ''player''"
    by (simp add: ali_auth_def)
  have bad: "f_mimetype (movie\<lparr>f_mimetype := ''application/pdf''\<rparr>) \<notin> set allowedTypes"
    by (simp add: allowedTypes_def)
  have big: "f_mimetype (movie\<lparr>f_size := 20971521\<rparr>) \<in> set allowedTypes
      \<and> fileSize < f_size (movie\<lparr>f_size := 20971521\<rparr>)"
    by (simp add: allowedTypes_def movie_def fileSize_def)
  have stored: "status (fst (upload_route env0 db0 ali_auth (Some movie) None)) = 201"
    by (simp add: upload_route_def role_mw_def upload_single_def fileFilter_def allowedTypes_def
          fileSize_def uploadMedia_def env0_def movie_def ali_auth_def json_def)
  from upload_validation [OF player, where f = "movie\<lparr>f_mimetype := ''application/pdf''\<rparr>"] bad
  have a: "status (fst (upload_route env0 db0 ali_auth
                          (Some (movie\<lparr>f_mimetype := ''application/pdf''\<rparr>)) None)) = 415
      \<and> snd (upload_route env0 db0 ali_auth
                (Some (movie\<lparr>f_mimetype := ''application/pdf''\<rparr>)) None) = (db0, [])"
    by blast
  from upload_validation [OF player, where f = "movie\<lparr>f_size := 20971521\<rparr>"] big
  have b: "status (fst (upload_route env0 db0 ali_auth
                          (Some (movie\<lparr>f_size := 20971521\<rparr>)) None)) = 413
      \<and> snd (upload_route env0 db0 ali_auth (Some (movie\<lparr>f_size := 20971521\<rparr>)) None)
          = (db0, [])"
    by blast
  note upload_validation [OF player, where f = movie and e = env0 and d = db0
                          and description = None, THEN conjunct2, THEN conjunct2, THEN mp,
                          OF stored]
  then obtain r :: upload_result where "videos (fst (snd (upload_route env0 db0 ali_auth (Some movie) None)))
      = videos db0 @
        [\<lparr>v_id = next_id (map v_id (videos db0)), v_player_id = au_id ali_auth,
          v_url = secure_url r, v_description = str_of None,
          v_type = (if startsWith (f_mimetype movie) ''image/'' then ''image'' else ''video''),
          v_public_id = Some (public_id r)\<rparr>]"
    by blast
  then have c: "map v_type (videos (fst (snd (upload_route env0 db0 ali_auth (Some movie) None))))
      = [''video'', ''video'']"
    by (simp add: movie_def ex_defs)
  from a b c show ?thesis by blast
qed

text \<open>
  The controller has a second answer 413, in its \<open>catch\<close>: it is given after the media
  service was called and threw an error whose message speaks of a payload too large; it
  does not depend on the length of the file. No row is stored on this path either.
\<close>

lemma uploadMedia_remote_refusal:
  assumes "au_role usr = ''player''" and "cloudinary_configured e"
    and "uploadBuffer e (f_originalname f) (f_mimetype f) (f_size f) = Inl m"
    and "includes_str m ''payload too large''" and "m \<noteq> []"
  shows "status (fst (uploadMedia e d usr (Some f) description)) = 413"
    and "snd (uploadMedia e d usr (Some f) description) = (d, [CloudUpload (f_originalname f)])"
  using assms by (simp_all add: uploadMedia_def json_def)

text \<open>
  C8. When the video is found (for the player: a video of the player's own; for an
  admin: any video), the deletion is answered 200 and the row is gone from \<open>videos\<close>,
  whatever the media service and the file system do: the environment \<open>e\<close>, which says
  whether the remote deletion throws, is arbitrary.
\<close>

theorem deleteVideo_survives_storage_failure:
  "(filter (\<lambda>v. v_id v = videoId \<and> v_player_id v = playerId) (videos d) \<noteq> [] \<longrightarrow>
      fst (deleteVideo e d playerId videoId) = msg 200 ''Video deleted successfully''
      \<and> videos (fst (snd (deleteVideo e d playerId videoId)))
          = filter (\<lambda>r. v_id r \<noteq> videoId) (videos d))
   \<and> (filter (\<lambda>v. v_id v = videoId) (videos d) \<noteq> [] \<longrightarrow>
      fst (admin_deleteVideo e d adminId videoId) = msg 200 ''Video deleted''
      \<and> videos (fst (snd (admin_deleteVideo e d adminId videoId)))
          = filter (\<lambda>r. v_id r \<noteq> videoId) (videos d))"
  by (auto simp add: deleteVideo_def admin_deleteVideo_def logAdminAction_def Let_def
        split: list.splits)

text \<open>
  In \<open>env0\<close> the remote deletion throws: the warning is written, and the video is deleted
  all the same.
\<close>

theorem deleteVideo_survives_storage_failure_witness:
  "\<not> deleteFile env0 ''pharaohs/goal''
   \<and> snd (snd (deleteVideo env0 db0 1 1))
       = [CloudDestroy ''pharaohs/goal'', Warn ''[Delete from Cloudinary Warning]'']
   \<and> fst (deleteVideo env0 db0 1 1) = msg 200 ''Video deleted successfully''
   \<and> videos (fst (snd (deleteVideo env0 db0 1 1))) = []
   \<and> snd (snd (admin_deleteVideo env0 db0 4 1))
       = [CloudDestroy ''pharaohs/goal'', Warn ''[Delete from Cloudinary Warning]'']
   \<and> fst (admin_deleteVideo env0 db0 4 1) = msg 200 ''Video deleted''
   \<and> videos (fst (snd (admin_deleteVideo env0 db0 4 1))) = []"
proof -
  have fails: "\<not> deleteFile env0 ''pharaohs/goal''"
    by (simp add: env0_def)
  have own: "filter (\<lambda>v. v_id v = 1 \<and> v_player_id v = 1) (videos db0) \<noteq> []"
    by (simp add: ex_defs)
  have any: "filter (\<lambda>v. v_id v = 1) (videos db0) \<noteq> []"
    by (simp add: ex_defs)
  have gone: "filter (\<lambda>r. v_id r \<noteq> 1) (videos db0) = []"
    by (simp add: ex_defs)
  have fx: "snd (snd (deleteVideo env0 db0 1 1))
       = [CloudDestroy ''pharaohs/goal'', Warn ''[Delete from Cloudinary Warning]'']"
    "snd (snd (admin_deleteVideo env0 db0 4 1))
       = [CloudDestroy ''pharaohs/goal'', Warn ''[Delete from Cloudinary Warning]'']"
    by (simp_all add: deleteVideo_def admin_deleteVideo_def truthy_def str_of_def env0_def
          Let_def ex_defs)
  from deleteVideo_survives_storage_failure
         [where videoId = 1 and playerId = 1 and adminId = 4 and d = db0 and e = env0]
       own any
  have "fst (deleteVideo env0 db0 1 1) = msg 200 ''Video deleted successfully''
      \<and> videos (fst (snd (deleteVideo env0 db0 1 1))) = filter (\<lambda>r. v_id r \<noteq> 1) (videos db0)
      \<and> fst (admin_deleteVideo env0 db0 4 1) = msg 200 ''Video deleted''
      \<and> videos (fst (snd (admin_deleteVideo env0 db0 4 1)))
          = filter (\<lambda>r. v_id r \<noteq> 1) (videos db0)"
    by blast
  with fails fx gone show ?thesis by simp
qed

section \<open>Properties of the rating\<close>

text \<open>
  The clamp keeps every rating that is a number between 1 and 5.
\<close>

lemma clamp_range:
  "js_max (Fin 1) (js_min (Fin 5) x) = NaN
   \<or> (\<exists>q. js_max (Fin 1) (js_min (Fin 5) x) = Fin q \<and> 1 \<le> q \<and> q \<le> 5)"
  by (cases x) auto

text \<open>
  At the example of the specification the real number that the formula denotes is
  \<open>19 / 5\<close>; the double that the handler computes lies within \<open>10^-15\<close> of it.
\<close>

lemma example_rating_error:
  "\<bar>8556839292003943 / 2251799813685248 - (((2 * 5 + 3 - 1 - 3 * 0) / 10 + 3) / 6 * 4 + 1)\<bar>
     < (1 / 10 ^ 15 :: rat)"
  by simp

text \<open>
  The clamp of the handler, case by case: a number is brought into the interval from 1 to
  5, an infinity becomes the nearer bound, and NaN stays NaN, since \<open>Math.min\<close> and
  \<open>Math.max\<close> answer NaN when an operand is NaN.
\<close>

lemma clamp_cases:
  "js_max (Fin 1) (js_min (Fin 5) (Fin q)) = Fin (max 1 (min 5 q))"
  "js_max (Fin 1) (js_min (Fin 5) PInf) = Fin 5"
  "js_max (Fin 1) (js_min (Fin 5) NInf) = Fin 1"
  "js_max (Fin 1) (js_min (Fin 5) NaN) = NaN"
  by (auto simp add: max_def min_def)

text \<open>
  The rating of the specification lies between 1 and 5 for every input; at the example it
  is \<open>19 / 5\<close>, and at \<open>overflow_stats\<close> it is 1, the formula being negative there.
\<close>

lemma spec_rating_range:
  "1 \<le> spec_rating m g a y r \<and> spec_rating m g a y r \<le> 5"
  by (simp add: spec_rating_def clamp_def)

lemma spec_rating_example: "spec_rating 10 5 3 1 0 = 19 / 5"
  by (simp add: spec_rating_def clamp_def)


text \<open>
  For 10 matches, 5 goals, 3 assists, 1 yellow card and no red card the answer's rating is
  \<open>3.80\<close>; the number handed to the store is the double \<open>8556839292003943 / 2^51\<close>, which
  JavaScript prints as 3.8000000000000003.
\<close>

lemma example_rating_printed:
  "status (fst (updatePerformanceStats db0 1 example_stats)) = 200
   \<and> map_of (body (fst (updatePerformanceStats db0 1 example_stats))) ''rating''
       = Some (JStr ''3.80'')
   \<and> player_profiles (snd (updatePerformanceStats db0 1 example_stats))
       = [\<lparr>pp_user_id = 1, pp_date_of_birth = None,
           pp_rating = Some (Fin (8556839292003943 / 2251799813685248))\<rparr>]"
proof -
  have body: "example_stats
     = \<lparr>sb_matches_played = Some (Fin (of_nat 10)), sb_goals = Some (Fin (of_nat 5)),
        sb_assists = Some (Fin (of_nat 3)), sb_yellow_cards = Some (Fin (of_nat 1)),
        sb_red_cards = Some (Fin (of_nat 0))\<rparr>"
    by (simp add: example_stats_def)
  have rating: "(if 0 < (10::nat)
      then js_max (Fin 1) (js_min (Fin 5)
      (js_add (js_mul (js_div (js_add
         (js_div (js_sub (js_sub (js_add (js_mul (Fin (of_nat 5)) (Fin 2)) (Fin (of_nat 3)))
                                 (Fin (of_nat 1)))
                         (js_mul (Fin (of_nat 0)) (Fin 3)))
                 (Fin (of_nat 10)))
         (Fin 3)) (Fin 6)) (Fin 4)) (Fin 1))) else Fin 1)
     = Fin (8556839292003943 / 2251799813685248)"
    by (simp add: js_sub_def fl_eval)
  have printed: "toFixed2 (Fin (8556839292003943 / 2251799813685248)) = ''3.80''"
    by (simp add: toFixed2_def string_of_nat.simps digit_char_def Let_def)
  have profiles: "map (\<lambda>p. if pp_user_id p = 1
        then p\<lparr>pp_rating := Some (Fin (8556839292003943 / 2251799813685248))\<rparr> else p)
                      (player_profiles db0)
     = [\<lparr>pp_user_id = 1, pp_date_of_birth = None,
         pp_rating = Some (Fin (8556839292003943 / 2251799813685248))\<rparr>]"
    by (simp add: db0_def)
  note st = updatePerformanceStats_status
              [where d = db0 and playerId = 1 and m = 10 and g = 5 and a = 3 and y = 1
               and r = 0, folded body]
  note an = updatePerformanceStats_answer
              [where d = db0 and playerId = 1 and m = 10 and g = 5 and a = 3 and y = 1
               and r = 0, folded body, unfolded rating printed]
  note pr = updatePerformanceStats_profiles
              [where d = db0 and playerId = 1 and m = 10 and g = 5 and a = 3 and y = 1
               and r = 0, folded body, unfolded rating profiles]
  from st an pr show ?thesis by (intro conjI)
qed




end
